theory Spec2Isabelle
  imports Main "HOL-Library.Word"
begin

section \<open>The dynamic table schema builder of Lovefield (lib/schema/table_builder.js)\<close>

text \<open>
  The schema collaborator of the transaction core: \<open>lf.schema.TableBuilder\<close> collects
  columns, indices and constraints of one table and \<open>getSchema()\<close> generates from them a
  table object with its constraint metadata, its row factory, the row serialization
  (\<open>toDbPayload\<close> / \<open>deserializeRow\<close>) and the index key extraction (\<open>keyOfIndex\<close>).

  Exceptions are values of a sum type (\<open>Inl\<close> the exception), the builder is an explicit
  state record that every operation returns updated, and the generated classes are records
  holding what their closures capture.
\<close>

subsection \<open>Values of the host language\<close>

text \<open>
  The values a row payload holds. Numbers are the integral doubles and \<open>NaN\<close> (time values
  are integral milliseconds); a \<open>Date\<close> carries its time value, \<open>None\<close> for the invalid
  date whose time value is \<open>NaN\<close>; an \<open>ArrayBuffer\<close> carries its bytes; \<open>JObject\<close> is a
  reference to a plain data object, which has no method \<open>getTime\<close>.
\<close>

datatype jsval =
    JNull
  | JUndefined
  | JBoolean bool
  | JNumber int
  | JNaN
  | JString string
  | JDate "int option"
  | JArrayBuffer "8 word list"
  | JObject nat

text \<open>An object used as a dictionary: own properties by name.\<close>

type_synonym obj = "string \<rightharpoonup> jsval"

text \<open>\<open>o[key]\<close>: reading a property that is not there gives \<open>undefined\<close>.\<close>

definition jsget :: "obj \<Rightarrow> string \<Rightarrow> jsval" where
  "jsget ob key = (case ob key of None \<Rightarrow> JUndefined | Some v \<Rightarrow> v)"

text \<open>
  \<open>o[key] = v\<close> on an object that began as the literal \<open>{}\<close>. Under the name
  \<open>__proto__\<close> the assignment reaches the setter that \<open>Object.prototype\<close> declares: it
  replaces the prototype of the object (given an object or \<open>null\<close>) or does nothing, and
  stores no property. Under any other name it stores the property.
\<close>

definition jsset :: "obj \<Rightarrow> string \<Rightarrow> jsval \<Rightarrow> obj" where
  "jsset ob key v = (if key = ''__proto__'' then ob else ob(key \<mapsto> v))"

datatype exception_type = SYNTAX

datatype error =
    lf_Exception exception_type string
  | TypeError

text \<open>\<open>value.getTime()\<close>: only a \<open>Date\<close> has the method; on anything else the call is a
  \<open>TypeError\<close> of the host language.\<close>

definition getTime :: "jsval \<Rightarrow> error + jsval" where
  "getTime v =
     (case v of
        JDate t \<Rightarrow> Inr (case t of None \<Rightarrow> JNaN | Some ms \<Rightarrow> JNumber ms)
      | _ \<Rightarrow> Inl TypeError)"

text \<open>\<open>TimeClip\<close> of ECMAScript: a time value beyond 8.64e15 ms from the epoch is \<open>NaN\<close>.\<close>

definition TimeClip :: "int \<Rightarrow> int option" where
  "TimeClip ms = (if \<bar>ms\<bar> \<le> 8640000000000000 then Some ms else None)"

text \<open>
  \<open>new Date(value)\<close>. On a number the time value is the clipped number; on another date it
  is that date's time value; \<open>undefined\<close> gives the invalid date. What the constructor makes
  of the remaining values (it parses strings) is the parameter \<open>parseDate\<close>.
\<close>

definition new_Date :: "(jsval \<Rightarrow> int option) \<Rightarrow> jsval \<Rightarrow> jsval" where
  "new_Date parseDate v =
     (case v of
        JNumber ms \<Rightarrow> JDate (TimeClip ms)
      | JNaN \<Rightarrow> JDate None
      | JUndefined \<Rightarrow> JDate None
      | JDate t \<Rightarrow> JDate t
      | _ \<Rightarrow> JDate (parseDate v))"

subsection \<open>Enumerations and the containers of the Closure library\<close>

datatype lf_Type = ARRAY_BUFFER | BOOLEAN | DATE_TIME | INTEGER | NUMBER | STRING | OBJECT

text \<open>\<open>lf.Order\<close> is declared outside this file; Lovefield declares it as the enumeration
  \<open>{DESC: 0, ASC: 1}\<close>, so \<open>DESC\<close> is falsy. No property below depends on the order that
  a column object carries.\<close>

datatype lf_Order = DESC | ASC

text \<open>\<open>opt_order || lf.Order.ASC\<close> and \<open>opt_autoInc || false\<close>.\<close>

definition order_or_ASC :: "lf_Order option \<Rightarrow> lf_Order" where
  "order_or_ASC opt_order =
     (case opt_order of None \<Rightarrow> ASC | Some DESC \<Rightarrow> ASC | Some ASC \<Rightarrow> ASC)"

definition bool_or_false :: "bool option \<Rightarrow> bool" where
  "bool_or_false opt = (case opt of None \<Rightarrow> False | Some b \<Rightarrow> b)"

text \<open>
  \<open>goog.structs.Map\<close>: an association list in insertion order, every key once. \<open>set\<close> on
  a key that is there replaces its value in place, otherwise it appends the entry.
\<close>

type_synonym ('k, 'v) Map = "('k \<times> 'v) list"

definition Map_containsKey :: "('k, 'v) Map \<Rightarrow> 'k \<Rightarrow> bool" where
  "Map_containsKey m k = (map_of m k \<noteq> None)"

definition Map_get :: "('k, 'v) Map \<Rightarrow> 'k \<Rightarrow> 'v option" where
  "Map_get m k = map_of m k"

fun Map_set :: "('k, 'v) Map \<Rightarrow> 'k \<Rightarrow> 'v \<Rightarrow> ('k, 'v) Map" where
  "Map_set [] k v = [(k, v)]"
| "Map_set (p # ps) k v = (if fst p = k then (k, v) # ps else p # Map_set ps k v)"

text \<open>\<open>goog.structs.Set\<close>: the values in insertion order, every value once.\<close>

definition Set_contains :: "'a list \<Rightarrow> 'a \<Rightarrow> bool" where
  "Set_contains s x = (x \<in> set s)"

definition Set_add :: "'a list \<Rightarrow> 'a \<Rightarrow> 'a list" where
  "Set_add s x = (if x \<in> set s then s else s @ [x])"

definition Set_getValues :: "'a list \<Rightarrow> 'a list" where
  "Set_getValues s = s"

subsection \<open>The builder\<close>

record IndexedColumn =
  ic_name :: string
  ic_order :: lf_Order
  ic_autoIncrement :: bool

text \<open>The two column representations the builder accepts: names only, or column objects.\<close>

datatype columns_arg = Names "string list" | Cols "IndexedColumn list"

text \<open>The private fields \<open>name_\<close>, \<open>columns_\<close>, ... of the source, written \<open>tb_name\<close>, \<open>tb_columns\<close>, ...\<close>

record builder =
  tb_name :: string
  tb_columns :: "(string, lf_Type) Map"
  tb_uniqueColumns :: "string list"
  tb_uniqueIndices :: "string list"
  tb_nullable :: "string list"
  tb_pkName :: string
  tb_indices :: "(string, IndexedColumn list) Map"
  tb_persistIndex :: bool

text \<open>\<open>ch.toUpperCase()\<close> on the letters a name may hold (the constructor rejects a name
  with any other letter, so nothing else is ever observed).\<close>

definition toUpperCase :: "char \<Rightarrow> char" where
  "toUpperCase c =
     (if 97 \<le> (of_char c :: nat) \<and> (of_char c :: nat) \<le> 122
      then char_of ((of_char c :: nat) - 32) else c)"

text \<open>\<open>name[0].toUpperCase() + name.substring(1)\<close>: on the empty string \<open>name[0]\<close> is
  \<open>undefined\<close> and the method call is a \<open>TypeError\<close>.\<close>

definition toPascal :: "string \<Rightarrow> error + string" where
  "toPascal name =
     (case name of [] \<Rightarrow> Inl TypeError | c # rest \<Rightarrow> Inr (toUpperCase c # rest))"

text \<open>The regular expression \<open>/^[A-Za-z_][A-Za-z0-9_]*$/\<close>.\<close>

definition is_letter :: "char \<Rightarrow> bool" where
  "is_letter c =
     ((65 \<le> (of_char c :: nat) \<and> (of_char c :: nat) \<le> 90)
      \<or> (97 \<le> (of_char c :: nat) \<and> (of_char c :: nat) \<le> 122)
      \<or> c = CHR ''_'')"

definition is_word_char :: "char \<Rightarrow> bool" where
  "is_word_char c = (is_letter c \<or> (48 \<le> (of_char c :: nat) \<and> (of_char c :: nat) \<le> 57))"

definition naming_rule :: "string \<Rightarrow> bool" where
  "naming_rule name =
     (case name of [] \<Rightarrow> False | c # rest \<Rightarrow> is_letter c \<and> list_all is_word_char rest)"

definition checkName :: "builder \<Rightarrow> string \<Rightarrow> error + unit" where
  "checkName this name =
     (if \<not> naming_rule name
      then Inl (lf_Exception SYNTAX (name @ '' violates naming rule''))
      else if Map_containsKey (tb_columns this) name
            \<or> Map_containsKey (tb_indices this) name
            \<or> Set_contains (tb_uniqueIndices this) name
      then Inl (lf_Exception SYNTAX (tb_name this @ ''.'' @ name @ '' is already defined''))
      else Inr ())"

text \<open>The constructor: the primary key's name is computed before the name is checked.\<close>

definition TableBuilder :: "string \<Rightarrow> error + builder" where
  "TableBuilder tableName =
     (case toPascal tableName of
        Inl e \<Rightarrow> Inl e
      | Inr pascal \<Rightarrow>
          (let this = \<lparr> tb_name = tableName, tb_columns = [], tb_uniqueColumns = [],
                         tb_uniqueIndices = [], tb_nullable = [], tb_pkName = ''pk'' @ pascal,
                         tb_indices = [], tb_persistIndex = False \<rparr>
           in case checkName this tableName of
                Inl e \<Rightarrow> Inl e
              | Inr _ \<Rightarrow> Inr this))"

definition addColumn :: "builder \<Rightarrow> string \<Rightarrow> lf_Type \<Rightarrow> error + builder" where
  "addColumn this name type =
     (case checkName this name of
        Inl e \<Rightarrow> Inl e
      | Inr _ \<Rightarrow> Inr (this\<lparr>tb_columns := Map_set (tb_columns this) name type\<rparr>))"

text \<open>The consistency check of \<open>normalizeColumns\<close>: the \<open>forEach\<close> over the normalized
  columns, left at the first column that fails.\<close>

fun checkColumns :: "builder \<Rightarrow> bool \<Rightarrow> IndexedColumn list \<Rightarrow> error + unit" where
  "checkColumns this checkIndexable [] = Inr ()"
| "checkColumns this checkIndexable (col # rest) =
     (if \<not> Map_containsKey (tb_columns this) (ic_name col)
      then Inl (lf_Exception SYNTAX (tb_name this @ '' does not have column: '' @ ic_name col))
      else if checkIndexable
            \<and> (Map_get (tb_columns this) (ic_name col) = Some ARRAY_BUFFER
               \<or> Map_get (tb_columns this) (ic_name col) = Some OBJECT)
      then Inl (lf_Exception SYNTAX
                 (tb_name this @ '' index on non-indexable column: '' @ ic_name col))
      else checkColumns this checkIndexable rest)"

text \<open>An array of names becomes an array of column objects (the empty array, whose first
  element is not a string, is taken as it is: no column objects); column objects are kept.\<close>

definition normalizeColumns ::
  "builder \<Rightarrow> columns_arg \<Rightarrow> bool \<Rightarrow> lf_Order option \<Rightarrow> bool option
     \<Rightarrow> error + IndexedColumn list" where
  "normalizeColumns this columns checkIndexable opt_order opt_autoInc =
     (let normalized =
            (case columns of
               Names ns \<Rightarrow>
                 map (\<lambda>col. \<lparr> ic_name = col, ic_order = order_or_ASC opt_order,
                              ic_autoIncrement = bool_or_false opt_autoInc \<rparr>) ns
             | Cols cs \<Rightarrow> cs)
      in case checkColumns this checkIndexable normalized of
           Inl e \<Rightarrow> Inl e
         | Inr _ \<Rightarrow> Inr normalized)"

definition addPrimaryKey :: "builder \<Rightarrow> columns_arg \<Rightarrow> bool option \<Rightarrow> error + builder" where
  "addPrimaryKey this columns opt_autoInc =
     (case checkName this (tb_pkName this) of
        Inl e \<Rightarrow> Inl e
      | Inr _ \<Rightarrow>
          (case normalizeColumns this columns True None opt_autoInc of
             Inl e \<Rightarrow> Inl e
           | Inr cols \<Rightarrow>
               Inr (this\<lparr> tb_uniqueColumns := foldl Set_add (tb_uniqueColumns this) (map ic_name cols),
                          tb_uniqueIndices := Set_add (tb_uniqueIndices this) (tb_pkName this),
                          tb_indices := Map_set (tb_indices this) (tb_pkName this) cols \<rparr>)))"

text \<open>Not implemented in the source: the builder is returned as it is.\<close>

definition addForeignKey ::
  "builder \<Rightarrow> string \<Rightarrow> string \<Rightarrow> string \<Rightarrow> string \<Rightarrow> bool option \<Rightarrow> error + builder" where
  "addForeignKey this name localColumn remoteTable remoteColumn opt_cascade = Inr this"

definition addUnique :: "builder \<Rightarrow> string \<Rightarrow> string list \<Rightarrow> error + builder" where
  "addUnique this name columns =
     (case checkName this name of
        Inl e \<Rightarrow> Inl e
      | Inr _ \<Rightarrow>
          (case normalizeColumns this (Names columns) True None None of
             Inl e \<Rightarrow> Inl e
           | Inr cols \<Rightarrow>
               Inr (this\<lparr> tb_indices := Map_set (tb_indices this) name cols,
                          tb_uniqueIndices := Set_add (tb_uniqueIndices this) name \<rparr>)))"

definition addNullable :: "builder \<Rightarrow> string list \<Rightarrow> error + builder" where
  "addNullable this columns =
     (case normalizeColumns this (Names columns) False None None of
        Inl e \<Rightarrow> Inl e
      | Inr cols \<Rightarrow>
          Inr (this\<lparr> tb_nullable := foldl Set_add (tb_nullable this) (map ic_name cols) \<rparr>))"

definition addIndex ::
  "builder \<Rightarrow> string \<Rightarrow> columns_arg \<Rightarrow> lf_Order option \<Rightarrow> bool option \<Rightarrow> error + builder" where
  "addIndex this name columns opt_order opt_unique =
     (case checkName this name of
        Inl e \<Rightarrow> Inl e
      | Inr _ \<Rightarrow>
          (case normalizeColumns this columns True opt_order None of
             Inl e \<Rightarrow> Inl e
           | Inr cols \<Rightarrow>
               Inr (this\<lparr> tb_uniqueIndices :=
                            (if opt_unique = Some True then Set_add (tb_uniqueIndices this) name
                             else tb_uniqueIndices this),
                          tb_indices := Map_set (tb_indices this) name cols \<rparr>)))"

definition persistIndex :: "builder \<Rightarrow> bool \<Rightarrow> builder" where
  "persistIndex this v = this\<lparr>tb_persistIndex := v\<rparr>"

subsection \<open>The generated table class\<close>

text \<open>\<open>lf.schema.BaseColumn(table, name, isUnique, type)\<close>, read by \<open>getName()\<close> and
  \<open>getType()\<close>.\<close>

record Column =
  getName :: string
  isUnique :: bool
  getType :: lf_Type

text \<open>\<open>lf.schema.Index(tableName, name, isUnique, columns)\<close>. The columns are what
  \<open>indices_.get(indexName)\<close> returned: \<open>None\<close> is \<open>undefined\<close>.\<close>

record Index =
  idx_tableName :: string
  idx_name :: string
  idx_isUnique :: bool
  idx_columns :: "IndexedColumn list option"

text \<open>A foreign key definition: what \<open>addForeignKey\<close> is told.\<close>

record ForeignKey =
  fk_name :: string
  fk_localColumn :: string
  fk_remoteTable :: string
  fk_remoteColumn :: string
  fk_cascade :: "bool option"

text \<open>\<open>lf.schema.Constraint(primaryKey, notNullable, foreignKeys, unique)\<close>.\<close>

record Constraint =
  getPrimaryKey :: "Index option"
  getNotNullable :: "Column list"
  getForeignKeys :: "ForeignKey list"
  getUniqueKeys :: "Index list"

text \<open>
  The two closures that \<open>generateRowClass_\<close> stores in \<open>functionMap\<close>, each with the
  \<open>firstColumnName\<close> it captures: \<open>payload[firstColumnName].getTime()\<close> for a first column
  of type \<open>DATE_TIME\<close>, \<open>payload[firstColumnName]\<close> otherwise.
\<close>

datatype key_function = TimeOfColumn string | ValueOfColumn string

definition call_key_function :: "key_function \<Rightarrow> obj \<Rightarrow> error + jsval" where
  "call_key_function f payload =
     (case f of
        TimeOfColumn firstColumnName \<Rightarrow> getTime (jsget payload firstColumnName)
      | ValueOfColumn firstColumnName \<Rightarrow> Inr (jsget payload firstColumnName))"

text \<open>The generated row class: the columns and indices it captures, and \<open>functionMap\<close>.\<close>

record rowClass =
  rc_columns :: "Column list"
  rc_indices :: "Index list"
  functionMap :: "string \<rightharpoonup> key_function"

text \<open>
  The loop that fills \<open>functionMap\<close>. \<open>index.columns[0].name\<close> is a \<open>TypeError\<close> when the
  index has no first column. \<open>getNormalizedName\<close> belongs to \<open>lf.schema.Index\<close>, which is
  declared outside this file: it is a parameter.
\<close>

fun fill_functionMap ::
  "(Index \<Rightarrow> string) \<Rightarrow> builder \<Rightarrow> Index list \<Rightarrow> (string \<rightharpoonup> key_function)
     \<Rightarrow> error + (string \<rightharpoonup> key_function)" where
  "fill_functionMap getNormalizedName this [] fm = Inr fm"
| "fill_functionMap getNormalizedName this (index # rest) fm =
     (case idx_columns index of
        None \<Rightarrow> Inl TypeError
      | Some [] \<Rightarrow> Inl TypeError
      | Some (c0 # _) \<Rightarrow>
          (let firstColumnName = ic_name c0;
               key = getNormalizedName index
           in if Map_get (tb_columns this) firstColumnName = Some DATE_TIME
              then fill_functionMap getNormalizedName this rest
                     (fm(key \<mapsto> TimeOfColumn firstColumnName))
              else fill_functionMap getNormalizedName this rest
                     (fm(key \<mapsto> ValueOfColumn firstColumnName))))"

definition generateRowClass ::
  "(Index \<Rightarrow> string) \<Rightarrow> builder \<Rightarrow> Column list \<Rightarrow> Index list \<Rightarrow> error + rowClass" where
  "generateRowClass getNormalizedName this columns indices =
     (case fill_functionMap getNormalizedName this indices Map.empty of
        Inl e \<Rightarrow> Inl e
      | Inr fm \<Rightarrow> Inr \<lparr> rc_columns = columns, rc_indices = indices, functionMap = fm \<rparr>)"

text \<open>
  The table object: what the base constructor \<open>lf.schema.Table(name, cols, indices,
  persistIndex)\<close> receives, the constraint and the row class; the column objects that
  \<open>this[colName] = ...\<close> has stored in the table under the columns' names; and the column
  object that has replaced the table's prototype, \<open>None\<close> while the prototype is that of
  the generated class.
\<close>

record Table =
  tbl_name :: string
  tbl_cols :: "Column list"
  tbl_indices :: "Index list"
  tbl_persistIndex :: bool
  tbl_constraint :: Constraint
  tbl_rowClass :: rowClass
  tbl_columnProps :: "string \<rightharpoonup> Column"
  tbl_prototype :: "Column option"

text \<open>
  \<open>getSchema()\<close>: \<open>generateTableClass_\<close> followed by the constructor of the generated
  class. The maps over \<open>getKeys()\<close> that look every key up again are maps over the entries:
  the index objects that \<open>generateTableClass_\<close> builds first, and the column objects that
  the constructor builds.

  The constructor stores each column object in the table object under the column's name,
  \<open>this[colName] = new lf.schema.BaseColumn(...)\<close>, and reads it back for the column list.
  Under the name \<open>__proto__\<close> that assignment makes the column object the prototype of
  the table (and reading it back gives that prototype, the same column object); under any
  other name it stores a property of the table. The assignments of \<open>cols_\<close>,
  \<open>constraint_\<close> and \<open>rowClass_\<close> that follow replace a column object stored under
  these names (as do the fields that the base constructor assigns; it is declared outside
  this file, and its fields are not the methods called below).
\<close>

definition generated_indices :: "builder \<Rightarrow> Index list" where
  "generated_indices this =
     map (\<lambda>(indexName, cols).
            \<lparr> idx_tableName = tb_name this, idx_name = indexName,
              idx_isUnique = Set_contains (tb_uniqueIndices this) indexName,
              idx_columns = Some cols \<rparr>)
         (tb_indices this)"

definition generated_cols :: "builder \<Rightarrow> Column list" where
  "generated_cols that =
     map (\<lambda>(colName, type).
            \<lparr> getName = colName,
              isUnique = Set_contains (tb_uniqueColumns that) colName,
              getType = type \<rparr>)
         (tb_columns that)"

fun store_columns ::
  "Column list \<Rightarrow> (string \<rightharpoonup> Column) \<Rightarrow> Column option
     \<Rightarrow> (string \<rightharpoonup> Column) \<times> Column option" where
  "store_columns [] props proto = (props, proto)"
| "store_columns (col # rest) props proto =
     (if getName col = ''__proto__'' then store_columns rest props (Some col)
      else store_columns rest (props(getName col \<mapsto> col)) proto)"

definition getSchema :: "(Index \<Rightarrow> string) \<Rightarrow> builder \<Rightarrow> error + Table" where
  "getSchema getNormalizedName that =
     (let indices = generated_indices that;
          cols = generated_cols that;
          stored = store_columns cols Map.empty None;
          pk = (case Map_get (tb_indices that) (tb_pkName that) of
                  Some pkCols \<Rightarrow>
                    Some \<lparr> idx_tableName = tb_name that, idx_name = tb_pkName that,
                           idx_isUnique = True, idx_columns = Some pkCols \<rparr>
                | None \<Rightarrow> None);
          notNullable = filter (\<lambda>col. \<not> Set_contains (tb_nullable that) (getName col)) cols;
          foreignKeys = [];
          unique =
            map (\<lambda>indexName.
                   \<lparr> idx_tableName = tb_name that, idx_name = indexName,
                     idx_isUnique = True,
                     idx_columns = Map_get (tb_indices that) indexName \<rparr>)
                (Set_getValues (tb_uniqueIndices that))
      in case generateRowClass getNormalizedName that cols indices of
           Inl e \<Rightarrow> Inl e
         | Inr rc \<Rightarrow>
             Inr \<lparr> tbl_name = tb_name that, tbl_cols = cols, tbl_indices = indices,
                   tbl_persistIndex = tb_persistIndex that,
                   tbl_constraint =
                     \<lparr> getPrimaryKey = pk, getNotNullable = notNullable,
                       getForeignKeys = foreignKeys, getUniqueKeys = unique \<rparr>,
                   tbl_rowClass = rc,
                   tbl_columnProps =
                     (fst stored)(''cols_'' := None, ''constraint_'' := None,
                                  ''rowClass_'' := None),
                   tbl_prototype = snd stored \<rparr>)"

text \<open>
  A call \<open>table.m(...)\<close> of a method that the generated class declares on its prototype
  (\<open>createRow\<close>, \<open>deserializeRow\<close>, \<open>getConstraint\<close>) reads the member \<open>m\<close> of the table
  first. A column object stored under that name is what is read, and it is not a function;
  a table whose prototype is a column object does not inherit from the generated class, and
  \<open>lf.schema.BaseColumn\<close> (declared outside this file) has no member of these names. In
  both cases the call is a \<open>TypeError\<close> of the host language.
\<close>

definition method_of :: "Table \<Rightarrow> string \<Rightarrow> error + unit" where
  "method_of this m =
     (case tbl_columnProps this m of
        Some col \<Rightarrow> Inl TypeError
      | None \<Rightarrow> (case tbl_prototype this of
                   Some col \<Rightarrow> Inl TypeError
                 | None \<Rightarrow> Inr ()))"

text \<open>\<open>table.getConstraint()\<close>.\<close>

definition getConstraint :: "Table \<Rightarrow> error + Constraint" where
  "getConstraint this =
     (case method_of this ''getConstraint'' of
        Inl e \<Rightarrow> Inl e
      | Inr _ \<Rightarrow> Inr (tbl_constraint this))"

subsection \<open>Rows\<close>

text \<open>A row: \<open>id()\<close> and \<open>payload()\<close> of \<open>lf.Row\<close>.\<close>

record Row =
  row_id :: int
  row_payload :: obj

text \<open>\<open>keyOfIndex\<close> of the generated row class. \<open>indexName.indexOf('#') != -1\<close> holds when
  the character occurs in the name.\<close>

definition keyOfIndex :: "Table \<Rightarrow> Row \<Rightarrow> string \<Rightarrow> error + jsval" where
  "keyOfIndex table this indexName =
     (if CHR ''#'' \<in> set indexName then Inr (JNumber (row_id this))
      else case functionMap (tbl_rowClass table) indexName of
             Some f \<Rightarrow> call_key_function f (row_payload this)
           | None \<Rightarrow> Inr JNull)"

text \<open>\<open>defaultPayload\<close> of the generated row class. \<open>lf.type.DEFAULT_VALUES\<close> is declared
  outside this file: the table of defaults is a parameter.\<close>

definition defaultPayload :: "(lf_Type \<Rightarrow> jsval) \<Rightarrow> rowClass \<Rightarrow> obj" where
  "defaultPayload DEFAULT_VALUES rc =
     foldl (\<lambda>ob col. jsset ob (getName col) (DEFAULT_VALUES (getType col))) Map.empty
       (rc_columns rc)"

text \<open>
  Modelled from the spec: the base class \<open>lf.Row\<close> is declared outside this file. Its
  constructor keeps the id and the payload it is given and, given none, takes the payload
  from \<open>defaultPayload()\<close> (the source places the call of the base constructor "so that
  defaultPayload() can run correctly"); \<open>lf.Row.getNextId()\<close> hands out the next id of a
  global counter, which is threaded through here.
\<close>

definition new_Row :: "(lf_Type \<Rightarrow> jsval) \<Rightarrow> rowClass \<Rightarrow> int \<Rightarrow> obj option \<Rightarrow> Row" where
  "new_Row DEFAULT_VALUES rc rowId opt_payload =
     \<lparr> row_id = rowId,
       row_payload = (case opt_payload of
                        Some payload \<Rightarrow> payload
                      | None \<Rightarrow> defaultPayload DEFAULT_VALUES rc) \<rparr>"

text \<open>\<open>table.createRow(opt_value)\<close>: a call that fails has not taken an id.\<close>

definition createRow ::
  "(lf_Type \<Rightarrow> jsval) \<Rightarrow> Table \<Rightarrow> obj option \<Rightarrow> int \<Rightarrow> error + Row \<times> int" where
  "createRow DEFAULT_VALUES this opt_value nextId =
     (case method_of this ''createRow'' of
        Inl e \<Rightarrow> Inl e
      | Inr _ \<Rightarrow>
          Inr (new_Row DEFAULT_VALUES (tbl_rowClass this) nextId opt_value, nextId + 1))"

text \<open>
  \<open>toDbPayload\<close>. The body of its loop stores, under the column's name, the payload's
  value coerced by the column's type; \<open>getTime\<close> may fail, and the loop is left there.
  \<open>lf.Row.binToHex\<close> is declared outside this file: it is a parameter, and may throw.
\<close>

definition toDb_value :: "(jsval \<Rightarrow> error + jsval) \<Rightarrow> lf_Type \<Rightarrow> jsval \<Rightarrow> error + jsval" where
  "toDb_value binToHex type v =
     (if type = ARRAY_BUFFER then (if v = JNull then Inr v else binToHex v)
      else if type = DATE_TIME then (if v = JNull then Inr v else getTime v)
      else Inr v)"

fun toDbPayload_loop ::
  "(jsval \<Rightarrow> error + jsval) \<Rightarrow> obj \<Rightarrow> Column list \<Rightarrow> obj \<Rightarrow> error + obj" where
  "toDbPayload_loop binToHex payload [] ob = Inr ob"
| "toDbPayload_loop binToHex payload (col # rest) ob =
     (let key = getName col; type = getType col; v = jsget payload key
      in case toDb_value binToHex type v of
           Inl e \<Rightarrow> Inl e
         | Inr stored \<Rightarrow> toDbPayload_loop binToHex payload rest (jsset ob key stored))"

definition toDbPayload :: "(jsval \<Rightarrow> error + jsval) \<Rightarrow> Table \<Rightarrow> Row \<Rightarrow> error + obj" where
  "toDbPayload binToHex table this =
     toDbPayload_loop binToHex (row_payload this) (rc_columns (tbl_rowClass table)) Map.empty"

text \<open>The persisted record \<open>{id: ..., value: ...}\<close>.\<close>

record dbRecord =
  rec_id :: int
  rec_value :: obj

text \<open>
  \<open>table.deserializeRow(dbRecord)\<close>, with the body of its loop likewise.
  \<open>lf.Row.hexToBin\<close> is a parameter like \<open>binToHex\<close>. The row is built with the payload
  collected, which the row constructor keeps.
\<close>

definition fromDb_value ::
  "(jsval \<Rightarrow> error + jsval) \<Rightarrow> (jsval \<Rightarrow> int option) \<Rightarrow> lf_Type \<Rightarrow> jsval \<Rightarrow> error + jsval" where
  "fromDb_value hexToBin parseDate type v =
     (if type = ARRAY_BUFFER then (if v = JNull then Inr v else hexToBin v)
      else if type = DATE_TIME then Inr (if v = JNull then v else new_Date parseDate v)
      else Inr v)"

fun deserializeRow_loop ::
  "(jsval \<Rightarrow> error + jsval) \<Rightarrow> (jsval \<Rightarrow> int option) \<Rightarrow> obj \<Rightarrow> Column list \<Rightarrow> obj
     \<Rightarrow> error + obj" where
  "deserializeRow_loop hexToBin parseDate stored [] ob = Inr ob"
| "deserializeRow_loop hexToBin parseDate stored (col # rest) ob =
     (let key = getName col; type = getType col; v = jsget stored key
      in case fromDb_value hexToBin parseDate type v of
           Inl e \<Rightarrow> Inl e
         | Inr x \<Rightarrow> deserializeRow_loop hexToBin parseDate stored rest (jsset ob key x))"

definition deserializeRow ::
  "(jsval \<Rightarrow> error + jsval) \<Rightarrow> (jsval \<Rightarrow> int option) \<Rightarrow> Table \<Rightarrow> dbRecord \<Rightarrow> error + Row" where
  "deserializeRow hexToBin parseDate this dbRec =
     (case method_of this ''deserializeRow'' of
        Inl e \<Rightarrow> Inl e
      | Inr _ \<Rightarrow>
          (case deserializeRow_loop hexToBin parseDate (rec_value dbRec) (tbl_cols this)
                  Map.empty of
             Inl e \<Rightarrow> Inl e
           | Inr ob \<Rightarrow> Inr \<lparr> row_id = rec_id dbRec, row_payload = ob \<rparr>))"

subsection \<open>Programs that use the builder\<close>

text \<open>
  A table is built by constructing a builder and calling its methods. A call that throws
  has changed nothing (every method checks before it writes), so the builders a program
  can hold are those reached by the calls that returned.
\<close>

datatype operation =
    AddColumn string lf_Type
  | AddPrimaryKey columns_arg "bool option"
  | AddForeignKey string string string string "bool option"
  | AddUnique string "string list"
  | AddNullable "string list"
  | AddIndex string columns_arg "lf_Order option" "bool option"
  | PersistIndex bool

fun call :: "builder \<Rightarrow> operation \<Rightarrow> error + builder" where
  "call b (AddColumn name type) = addColumn b name type"
| "call b (AddPrimaryKey columns opt_autoInc) = addPrimaryKey b columns opt_autoInc"
| "call b (AddForeignKey name localColumn remoteTable remoteColumn opt_cascade) =
     addForeignKey b name localColumn remoteTable remoteColumn opt_cascade"
| "call b (AddUnique name columns) = addUnique b name columns"
| "call b (AddNullable columns) = addNullable b columns"
| "call b (AddIndex name columns opt_order opt_unique) =
     addIndex b name columns opt_order opt_unique"
| "call b (PersistIndex v) = Inr (persistIndex b v)"

fun calls :: "builder \<Rightarrow> operation list \<Rightarrow> error + builder" where
  "calls b [] = Inr b"
| "calls b (x # xs) = (case call b x of Inl e \<Rightarrow> Inl e | Inr b' \<Rightarrow> calls b' xs)"

definition build :: "string \<Rightarrow> operation list \<Rightarrow> error + builder" where
  "build tableName ops =
     (case TableBuilder tableName of Inl e \<Rightarrow> Inl e | Inr b \<Rightarrow> calls b ops)"

text \<open>A call on the result of a call: an exception of the first ends the program.\<close>

definition then_call :: "error + 'a \<Rightarrow> ('a \<Rightarrow> error + 'b) \<Rightarrow> error + 'b" where
  "then_call r f = (case r of Inl e \<Rightarrow> Inl e | Inr x \<Rightarrow> f x)"

definition schema_of :: "(Index \<Rightarrow> string) \<Rightarrow> string \<Rightarrow> operation list \<Rightarrow> error + Table" where
  "schema_of getNormalizedName tableName ops =
     (case build tableName ops of Inl e \<Rightarrow> Inl e | Inr b \<Rightarrow> getSchema getNormalizedName b)"

text \<open>What a program declares, read off its calls.\<close>

fun declared_columns :: "operation list \<Rightarrow> (string \<times> lf_Type) list" where
  "declared_columns [] = []"
| "declared_columns (AddColumn name type # xs) = (name, type) # declared_columns xs"
| "declared_columns (_ # xs) = declared_columns xs"

fun passed_to_addNullable :: "operation list \<Rightarrow> string list" where
  "passed_to_addNullable [] = []"
| "passed_to_addNullable (AddNullable columns # xs) = columns @ passed_to_addNullable xs"
| "passed_to_addNullable (_ # xs) = passed_to_addNullable xs"

text \<open>The names of the indices declared unique: the primary key's, those of \<open>addUnique\<close>
  and those of \<open>addIndex\<close> with the unique flag set.\<close>

fun declared_unique :: "string \<Rightarrow> operation list \<Rightarrow> string list" where
  "declared_unique pk [] = []"
| "declared_unique pk (AddPrimaryKey columns opt_autoInc # xs) = pk # declared_unique pk xs"
| "declared_unique pk (AddUnique name columns # xs) = name # declared_unique pk xs"
| "declared_unique pk (AddIndex name columns opt_order opt_unique # xs) =
     (if opt_unique = Some True then name # declared_unique pk xs else declared_unique pk xs)"
| "declared_unique pk (_ # xs) = declared_unique pk xs"

fun declared_not_unique :: "operation list \<Rightarrow> string list" where
  "declared_not_unique [] = []"
| "declared_not_unique (AddIndex name columns opt_order opt_unique # xs) =
     (if opt_unique = Some True then declared_not_unique xs else name # declared_not_unique xs)"
| "declared_not_unique (_ # xs) = declared_not_unique xs"

subsection \<open>Notions the properties are stated with\<close>

text \<open>A call throws an \<open>lf.Exception\<close> of type \<open>SYNTAX\<close>.\<close>

definition throws_SYNTAX :: "error + 'a \<Rightarrow> bool" where
  "throws_SYNTAX r = (case r of Inl (lf_Exception SYNTAX msg) \<Rightarrow> True | _ \<Rightarrow> False)"

text \<open>A name is already present among the columns, indices or unique indices.\<close>

definition already_defined :: "builder \<Rightarrow> string \<Rightarrow> bool" where
  "already_defined b name =
     (Map_containsKey (tb_columns b) name \<or> Map_containsKey (tb_indices b) name
      \<or> Set_contains (tb_uniqueIndices b) name)"

definition column_names :: "columns_arg \<Rightarrow> string list" where
  "column_names columns = (case columns of Names ns \<Rightarrow> ns | Cols cs \<Rightarrow> map ic_name cs)"

definition not_defined_column :: "builder \<Rightarrow> string \<Rightarrow> bool" where
  "not_defined_column b name = (\<not> Map_containsKey (tb_columns b) name)"

definition non_indexable_column :: "builder \<Rightarrow> string \<Rightarrow> bool" where
  "non_indexable_column b name =
     (Map_get (tb_columns b) name = Some ARRAY_BUFFER \<or> Map_get (tb_columns b) name = Some OBJECT)"

text \<open>What the consistency check of \<open>normalizeColumns_\<close> rejects in a referenced column.\<close>

definition rejected_column :: "builder \<Rightarrow> bool \<Rightarrow> string \<Rightarrow> bool" where
  "rejected_column b checkIndexable name =
     (not_defined_column b name \<or> (checkIndexable \<and> non_indexable_column b name))"

text \<open>A column has the name of the member \<open>m\<close> of the table, or a column is named
  \<open>__proto__\<close>: the method \<open>m\<close> of a generated table can be called when neither is so, and
  only then.\<close>

definition shadowed :: "Table \<Rightarrow> string \<Rightarrow> bool" where
  "shadowed t m = (m \<in> getName ` set (tbl_cols t) \<or> ''__proto__'' \<in> getName ` set (tbl_cols t))"


text \<open>A payload is well-typed for the columns: an \<open>ArrayBuffer\<close> or \<open>null\<close> in a column of
  type \<open>ARRAY_BUFFER\<close>, a \<open>Date\<close> or \<open>null\<close> in a column of type \<open>DATE_TIME\<close>. The time
  value of a \<open>Date\<close> is \<open>NaN\<close> or within the range of \<open>TimeClip\<close>.\<close>

definition is_ArrayBuffer :: "jsval \<Rightarrow> bool" where
  "is_ArrayBuffer v = (case v of JArrayBuffer bytes \<Rightarrow> True | _ \<Rightarrow> False)"

definition is_Date :: "jsval \<Rightarrow> bool" where
  "is_Date v =
     (case v of
        JDate t \<Rightarrow> (case t of None \<Rightarrow> True | Some ms \<Rightarrow> \<bar>ms\<bar> \<le> 8640000000000000)
      | _ \<Rightarrow> False)"

definition well_typed_value :: "lf_Type \<Rightarrow> jsval \<Rightarrow> bool" where
  "well_typed_value type v =
     (if type = ARRAY_BUFFER then v = JNull \<or> is_ArrayBuffer v
      else if type = DATE_TIME then v = JNull \<or> is_Date v
      else True)"

definition well_typed :: "Table \<Rightarrow> obj \<Rightarrow> bool" where
  "well_typed t payload =
     list_all (\<lambda>col. well_typed_value (getType col) (jsget payload (getName col))) (tbl_cols t)"

subsection \<open>An example table\<close>

text \<open>A normalized index name, for the examples: table name, a dot, index name.\<close>

definition dotted_name :: "Index \<Rightarrow> string" where
  "dotted_name index = idx_tableName index @ ''.'' @ idx_name index"

text \<open>
  Modelled from the spec: \<open>lf.Row.binToHex\<close> and \<open>lf.Row.hexToBin\<close> are declared outside
  this file; the spec has "binary payload \<open>\<leftrightarrow>\<close> hex string". For the examples: two
  hexadecimal digits for every byte.
\<close>

definition hex_digit :: "nat \<Rightarrow> char" where
  "hex_digit n = ''0123456789abcdef'' ! n"

definition hex_value :: "char \<Rightarrow> nat" where
  "hex_value c =
     (if (of_char c :: nat) \<le> 57 then (of_char c :: nat) - 48 else (of_char c :: nat) - 87)"

fun bytes_to_hex :: "8 word list \<Rightarrow> string" where
  "bytes_to_hex [] = []"
| "bytes_to_hex (b # bs) =
     hex_digit (unat b div 16) # hex_digit (unat b mod 16) # bytes_to_hex bs"

fun hex_to_bytes :: "string \<Rightarrow> 8 word list" where
  "hex_to_bytes (c # d # rest) = of_nat (hex_value c * 16 + hex_value d) # hex_to_bytes rest"
| "hex_to_bytes _ = []"

definition hex_binToHex :: "jsval \<Rightarrow> error + jsval" where
  "hex_binToHex v =
     (case v of JArrayBuffer bytes \<Rightarrow> Inr (JString (bytes_to_hex bytes)) | _ \<Rightarrow> Inl TypeError)"

definition hex_hexToBin :: "jsval \<Rightarrow> error + jsval" where
  "hex_hexToBin v =
     (case v of JString hex \<Rightarrow> Inr (JArrayBuffer (hex_to_bytes hex)) | _ \<Rightarrow> Inl TypeError)"

text \<open>A table of default values, for the examples.\<close>

fun example_DEFAULT_VALUES :: "lf_Type \<Rightarrow> jsval" where
  "example_DEFAULT_VALUES ARRAY_BUFFER = JArrayBuffer []"
| "example_DEFAULT_VALUES BOOLEAN = JBoolean False"
| "example_DEFAULT_VALUES DATE_TIME = JDate (Some 0)"
| "example_DEFAULT_VALUES INTEGER = JNumber 0"
| "example_DEFAULT_VALUES NUMBER = JNumber 0"
| "example_DEFAULT_VALUES STRING = JString []"
| "example_DEFAULT_VALUES OBJECT = JObject 0"

definition no_parseDate :: "jsval \<Rightarrow> int option" where
  "no_parseDate v = None"

text \<open>The program that declares the table \<open>job\<close>, the builder it reaches and the table
  that \<open>getSchema()\<close> generates.\<close>

definition example_ops :: "operation list" where
  "example_ops =
     [AddColumn ''id'' INTEGER, AddColumn ''title'' STRING, AddColumn ''hired'' DATE_TIME,
      AddColumn ''photo'' ARRAY_BUFFER,
      AddPrimaryKey (Names [''id'']) (Some True),
      AddUnique ''uq_title'' [''title''],
      AddIndex ''idx_hired'' (Names [''hired'', ''title'']) (Some DESC) None,
      AddNullable [''photo''],
      AddForeignKey ''fk_dept'' ''id'' ''dept'' ''id'' None]"

definition example_builder :: builder where
  "example_builder =
     \<lparr> tb_name = ''job'',
       tb_columns = [(''id'', INTEGER), (''title'', STRING), (''hired'', DATE_TIME),
                     (''photo'', ARRAY_BUFFER)],
       tb_uniqueColumns = [''id''],
       tb_uniqueIndices = [''pkJob'', ''uq_title''],
       tb_nullable = [''photo''],
       tb_pkName = ''pkJob'',
       tb_indices =
         [(''pkJob'', [\<lparr>ic_name = ''id'', ic_order = ASC, ic_autoIncrement = True\<rparr>]),
          (''uq_title'', [\<lparr>ic_name = ''title'', ic_order = ASC, ic_autoIncrement = False\<rparr>]),
          (''idx_hired'', [\<lparr>ic_name = ''hired'', ic_order = ASC, ic_autoIncrement = False\<rparr>,
                           \<lparr>ic_name = ''title'', ic_order = ASC, ic_autoIncrement = False\<rparr>])],
       tb_persistIndex = False \<rparr>"

definition example_cols :: "Column list" where
  "example_cols =
     [\<lparr>getName = ''id'', isUnique = True, getType = INTEGER\<rparr>,
      \<lparr>getName = ''title'', isUnique = False, getType = STRING\<rparr>,
      \<lparr>getName = ''hired'', isUnique = False, getType = DATE_TIME\<rparr>,
      \<lparr>getName = ''photo'', isUnique = False, getType = ARRAY_BUFFER\<rparr>]"

definition example_pk :: Index where
  "example_pk =
     \<lparr> idx_tableName = ''job'', idx_name = ''pkJob'', idx_isUnique = True,
       idx_columns = Some [\<lparr>ic_name = ''id'', ic_order = ASC, ic_autoIncrement = True\<rparr>] \<rparr>"

definition example_uq :: Index where
  "example_uq =
     \<lparr> idx_tableName = ''job'', idx_name = ''uq_title'', idx_isUnique = True,
       idx_columns = Some [\<lparr>ic_name = ''title'', ic_order = ASC, ic_autoIncrement = False\<rparr>] \<rparr>"

definition example_idx :: Index where
  "example_idx =
     \<lparr> idx_tableName = ''job'', idx_name = ''idx_hired'', idx_isUnique = False,
       idx_columns = Some [\<lparr>ic_name = ''hired'', ic_order = ASC, ic_autoIncrement = False\<rparr>,
                           \<lparr>ic_name = ''title'', ic_order = ASC, ic_autoIncrement = False\<rparr>] \<rparr>"

definition example_table :: Table where
  "example_table =
     \<lparr> tbl_name = ''job'', tbl_cols = example_cols,
       tbl_indices = [example_pk, example_uq, example_idx],
       tbl_persistIndex = False,
       tbl_constraint =
         \<lparr> getPrimaryKey = Some example_pk,
           getNotNullable = [\<lparr>getName = ''id'', isUnique = True, getType = INTEGER\<rparr>,
                             \<lparr>getName = ''title'', isUnique = False, getType = STRING\<rparr>,
                             \<lparr>getName = ''hired'', isUnique = False, getType = DATE_TIME\<rparr>],
           getForeignKeys = [],
           getUniqueKeys = [example_pk, example_uq] \<rparr>,
       tbl_rowClass =
         \<lparr> rc_columns = example_cols,
           rc_indices = [example_pk, example_uq, example_idx],
           functionMap = [''job.pkJob'' \<mapsto> ValueOfColumn ''id'',
                          ''job.uq_title'' \<mapsto> ValueOfColumn ''title'',
                          ''job.idx_hired'' \<mapsto> TimeOfColumn ''hired''] \<rparr>,
       tbl_columnProps =
         [''id'' \<mapsto> \<lparr>getName = ''id'', isUnique = True, getType = INTEGER\<rparr>,
          ''title'' \<mapsto> \<lparr>getName = ''title'', isUnique = False, getType = STRING\<rparr>,
          ''hired'' \<mapsto> \<lparr>getName = ''hired'', isUnique = False, getType = DATE_TIME\<rparr>,
          ''photo'' \<mapsto> \<lparr>getName = ''photo'', isUnique = False, getType = ARRAY_BUFFER\<rparr>]
         (''cols_'' := None, ''constraint_'' := None, ''rowClass_'' := None),
       tbl_prototype = None \<rparr>"

definition example_row :: Row where
  "example_row =
     \<lparr> row_id = 7,
       row_payload = [''id'' \<mapsto> JNumber 1, ''title'' \<mapsto> JString ''clerk'',
                      ''hired'' \<mapsto> JDate (Some 1000), ''photo'' \<mapsto> JArrayBuffer [31, 160]] \<rparr>"

subsection \<open>The invariant of the builder\<close>

text \<open>What every builder that a program reaches satisfies: the table name follows the naming
  rule, no column and no index is there twice, every index name follows the naming rule and
  every unique index is an index.\<close>

definition builder_inv :: "builder \<Rightarrow> bool" where
  "builder_inv b =
     (naming_rule (tb_name b)
      \<and> distinct (map fst (tb_columns b))
      \<and> distinct (map fst (tb_indices b))
      \<and> list_all naming_rule (map fst (tb_indices b))
      \<and> set (tb_uniqueIndices b) \<subseteq> fst ` set (tb_indices b))"

section \<open>Properties\<close>

subsection \<open>The containers\<close>

lemma Map_set_fresh: "k \<notin> fst ` set m \<Longrightarrow> Map_set m k v = m @ [(k, v)]"
  by (induction m) auto

lemma Map_containsKey_iff: "Map_containsKey m k \<longleftrightarrow> k \<in> fst ` set m"
  by (simp add: Map_containsKey_def map_of_eq_None_iff)

lemma Set_add_fresh: "x \<notin> set s \<Longrightarrow> Set_add s x = s @ [x]"
  by (simp add: Set_add_def)

lemma set_Set_add: "set (Set_add s x) = insert x (set s)"
  by (auto simp: Set_add_def)

lemma set_foldl_Set_add: "set (foldl Set_add s xs) = set s \<union> set xs"
  by (induction xs arbitrary: s) (auto simp: set_Set_add)

subsection \<open>What a call that returns has checked and changed\<close>

lemma checkName_Inr:
  "checkName b name = Inr u \<longleftrightarrow> naming_rule name \<and> \<not> already_defined b name"
  by (simp add: checkName_def already_defined_def)

lemma not_already_defined:
  assumes "\<not> already_defined b name"
  shows "name \<notin> fst ` set (tb_columns b)" "name \<notin> fst ` set (tb_indices b)"
    "name \<notin> set (tb_uniqueIndices b)"
  using assms by (simp_all add: already_defined_def Map_containsKey_iff Set_contains_def)

lemma fresh_name:
  assumes "\<not> already_defined b name"
  shows "Map_set (tb_columns b) name type = tb_columns b @ [(name, type)]"
    and "Map_set (tb_indices b) name cols = tb_indices b @ [(name, cols)]"
    and "Set_add (tb_uniqueIndices b) name = tb_uniqueIndices b @ [name]"
  using not_already_defined[OF assms] by (simp_all add: Map_set_fresh Set_add_fresh)

lemma normalizeColumns_Names:
  "normalizeColumns b (Names ns) ci ord ainc = Inr cols \<Longrightarrow> map ic_name cols = ns"
  by (auto simp: normalizeColumns_def Let_def comp_def split: sum.splits)

lemma call_Inr_cases [consumes 1, case_names AddColumn AddPrimaryKey AddForeignKey AddUnique
    AddNullable AddIndex PersistIndex]:
  assumes "call b x = Inr b'"
  obtains
    name type where "x = AddColumn name type" "naming_rule name" "\<not> already_defined b name"
      "b' = b\<lparr>tb_columns := tb_columns b @ [(name, type)]\<rparr>"
  | columns opt_autoInc cols where "x = AddPrimaryKey columns opt_autoInc"
      "naming_rule (tb_pkName b)" "\<not> already_defined b (tb_pkName b)"
      "normalizeColumns b columns True None opt_autoInc = Inr cols"
      "b' = b\<lparr>tb_uniqueColumns := foldl Set_add (tb_uniqueColumns b) (map ic_name cols),
               tb_uniqueIndices := tb_uniqueIndices b @ [tb_pkName b],
               tb_indices := tb_indices b @ [(tb_pkName b, cols)]\<rparr>"
  | name lc rt rc opt_cascade where "x = AddForeignKey name lc rt rc opt_cascade" "b' = b"
  | name columns cols where "x = AddUnique name columns"
      "naming_rule name" "\<not> already_defined b name"
      "normalizeColumns b (Names columns) True None None = Inr cols"
      "b' = b\<lparr>tb_indices := tb_indices b @ [(name, cols)],
               tb_uniqueIndices := tb_uniqueIndices b @ [name]\<rparr>"
  | columns cols where "x = AddNullable columns"
      "normalizeColumns b (Names columns) False None None = Inr cols"
      "b' = b\<lparr>tb_nullable := foldl Set_add (tb_nullable b) columns\<rparr>"
  | name columns opt_order opt_unique cols where "x = AddIndex name columns opt_order opt_unique"
      "naming_rule name" "\<not> already_defined b name"
      "normalizeColumns b columns True opt_order None = Inr cols"
      "b' = b\<lparr>tb_uniqueIndices :=
                 (if opt_unique = Some True then tb_uniqueIndices b @ [name]
                  else tb_uniqueIndices b),
               tb_indices := tb_indices b @ [(name, cols)]\<rparr>"
  | v where "x = PersistIndex v" "b' = b\<lparr>tb_persistIndex := v\<rparr>"
proof (cases x)
  case (AddColumn name type)
  with assms that(1)[of name type] show ?thesis
    by (auto simp: addColumn_def checkName_Inr fresh_name split: sum.splits)
next
  case (AddPrimaryKey columns opt_autoInc)
  with assms that(2)[of columns opt_autoInc] show ?thesis
    by (auto simp: addPrimaryKey_def checkName_Inr fresh_name split: sum.splits)
next
  case (AddForeignKey name lc rt rc opt_cascade)
  with assms that(3) show ?thesis
    by (auto simp: addForeignKey_def)
next
  case (AddUnique name columns)
  with assms that(4)[of name columns] show ?thesis
    by (auto simp: addUnique_def checkName_Inr fresh_name split: sum.splits)
next
  case (AddNullable columns)
  with assms that(5)[of columns] show ?thesis
    by (auto simp: addNullable_def normalizeColumns_Names split: sum.splits)
next
  case (AddIndex name columns opt_order opt_unique)
  with assms that(6)[of name columns opt_order opt_unique] show ?thesis
    by (auto simp: addIndex_def checkName_Inr fresh_name split: sum.splits)
next
  case (PersistIndex v)
  with assms that(7) show ?thesis
    by (auto simp: persistIndex_def)
qed

subsection \<open>What a program has declared when its calls have returned\<close>

lemma declared_columns_Cons:
  "declared_columns (x # xs) = declared_columns [x] @ declared_columns xs"
  by (cases x) simp_all

lemma declared_unique_Cons:
  "declared_unique pk (x # xs) = declared_unique pk [x] @ declared_unique pk xs"
  by (cases x) simp_all

lemma passed_to_addNullable_Cons:
  "passed_to_addNullable (x # xs) = passed_to_addNullable [x] @ passed_to_addNullable xs"
  by (cases x) simp_all

lemma declared_not_unique_Cons:
  "declared_not_unique (x # xs) = declared_not_unique [x] @ declared_not_unique xs"
  by (cases x) simp_all

lemma call_fields:
  assumes "call b x = Inr b'"
  shows "tb_name b' = tb_name b" and "tb_pkName b' = tb_pkName b"
    and "tb_columns b' = tb_columns b @ declared_columns [x]"
    and "tb_uniqueIndices b' = tb_uniqueIndices b @ declared_unique (tb_pkName b) [x]"
    and "set (tb_nullable b') = set (tb_nullable b) \<union> set (passed_to_addNullable [x])"
    and "fst ` set (tb_indices b) \<subseteq> fst ` set (tb_indices b')"
    and "set (declared_unique (tb_pkName b) [x]) \<inter> fst ` set (tb_indices b) = {}"
    and "set (declared_not_unique [x]) \<inter> set (tb_uniqueIndices b) = {}"
    and "set (declared_not_unique [x]) \<subseteq> fst ` set (tb_indices b')"
  using assms
  by (cases rule: call_Inr_cases; auto simp: set_foldl_Set_add dest: not_already_defined)+

lemma call_inv:
  assumes "call b x = Inr b'" and "builder_inv b"
  shows "builder_inv b'"
  using assms
  by (cases rule: call_Inr_cases)
     (auto simp: builder_inv_def dest: not_already_defined)

lemma calls_fields:
  assumes "calls b xs = Inr b'"
  shows "tb_name b' = tb_name b" and "tb_pkName b' = tb_pkName b"
    and "tb_columns b' = tb_columns b @ declared_columns xs"
    and "tb_uniqueIndices b' = tb_uniqueIndices b @ declared_unique (tb_pkName b) xs"
    and "set (tb_nullable b') = set (tb_nullable b) \<union> set (passed_to_addNullable xs)"
    and "fst ` set (tb_indices b) \<subseteq> fst ` set (tb_indices b')"
    and "set (declared_unique (tb_pkName b) xs) \<inter> fst ` set (tb_indices b) = {}"
  using assms
proof (induction xs arbitrary: b)
  case Nil
  {
    case 1 then show ?case by simp
  next
    case 2 then show ?case by simp
  next
    case 3 then show ?case by simp
  next
    case 4 then show ?case by simp
  next
    case 5 then show ?case by simp
  next
    case 6 then show ?case by simp
  next
    case 7 then show ?case by simp
  }
next
  case (Cons x xs)
  {
    case 1
    then obtain b1 where s: "call b x = Inr b1" "calls b1 xs = Inr b'"
      by (auto split: sum.splits)
    show ?case using Cons.IH(1)[OF s(2)] call_fields(1)[OF s(1)] by simp
  next
    case 2
    then obtain b1 where s: "call b x = Inr b1" "calls b1 xs = Inr b'"
      by (auto split: sum.splits)
    show ?case using Cons.IH(2)[OF s(2)] call_fields(2)[OF s(1)] by simp
  next
    case 3
    then obtain b1 where s: "call b x = Inr b1" "calls b1 xs = Inr b'"
      by (auto split: sum.splits)
    show ?case using Cons.IH(3)[OF s(2)] call_fields(3)[OF s(1)]
      by (simp add: declared_columns_Cons[of x xs])
  next
    case 4
    then obtain b1 where s: "call b x = Inr b1" "calls b1 xs = Inr b'"
      by (auto split: sum.splits)
    show ?case using Cons.IH(4)[OF s(2)] call_fields(4)[OF s(1)] call_fields(2)[OF s(1)]
      by (simp add: declared_unique_Cons[of _ x xs])
  next
    case 5
    then obtain b1 where s: "call b x = Inr b1" "calls b1 xs = Inr b'"
      by (auto split: sum.splits)
    show ?case using Cons.IH(5)[OF s(2)] call_fields(5)[OF s(1)]
      by (simp add: passed_to_addNullable_Cons[of x xs] Un_assoc)
  next
    case 6
    then obtain b1 where s: "call b x = Inr b1" "calls b1 xs = Inr b'"
      by (auto split: sum.splits)
    show ?case using Cons.IH(6)[OF s(2)] call_fields(6)[OF s(1)] by blast
  next
    case 7
    then obtain b1 where s: "call b x = Inr b1" "calls b1 xs = Inr b'"
      by (auto split: sum.splits)
    show ?case
      using Cons.IH(7)[OF s(2)] call_fields(7)[OF s(1)] call_fields(6)[OF s(1)]
        call_fields(2)[OF s(1)]
      by (simp add: declared_unique_Cons[of _ x xs] Int_Un_distrib2) blast
  }
qed


lemma calls_inv:
  "calls b xs = Inr b' \<Longrightarrow> builder_inv b \<Longrightarrow> builder_inv b'"
  by (induction xs arbitrary: b) (auto split: sum.splits dest: call_inv)

lemma declared_not_unique_single:
  "set (declared_not_unique [x]) \<inter> set (declared_unique pk [x]) = {}"
  by (cases x) simp_all

lemma calls_not_unique:
  "calls b xs = Inr b' \<Longrightarrow> set (declared_not_unique xs) \<inter> set (tb_uniqueIndices b') = {}"
proof (induction xs arbitrary: b)
  case Nil
  then show ?case by simp
next
  case (Cons x xs)
  then obtain b1 where s: "call b x = Inr b1" "calls b1 xs = Inr b'"
    by (auto split: sum.splits)
  have "set (declared_not_unique [x]) \<inter> set (tb_uniqueIndices b') = {}"
    using call_fields(8,9,4,2)[OF s(1)] calls_fields(4,7)[OF s(2)]
      declared_not_unique_single[of x "tb_pkName b"] by auto
  with Cons.IH[OF s(2)] show ?case
    by (simp add: declared_not_unique_Cons[of x xs] Int_Un_distrib2)
qed

lemma TableBuilder_Inr:
  assumes "TableBuilder tableName = Inr b"
  shows "naming_rule tableName"
    and "b = \<lparr> tb_name = tableName, tb_columns = [], tb_uniqueColumns = [],
               tb_uniqueIndices = [], tb_nullable = [],
               tb_pkName = ''pk'' @ toUpperCase (hd tableName) # tl tableName,
               tb_indices = [], tb_persistIndex = False \<rparr>"
  using assms
  by (auto simp: TableBuilder_def toPascal_def checkName_def Let_def
      split: sum.splits list.splits if_splits)

lemma build_Inr:
  assumes "build tableName ops = Inr b"
  obtains b0 where "TableBuilder tableName = Inr b0" "calls b0 ops = Inr b"
  using assms by (auto simp: build_def split: sum.splits)

lemma build_fields:
  assumes "build tableName ops = Inr b"
  shows "tb_name b = tableName"
    and "naming_rule tableName"
    and "tb_pkName b = ''pk'' @ toUpperCase (hd tableName) # tl tableName"
    and "tb_columns b = declared_columns ops"
    and "tb_uniqueIndices b = declared_unique (tb_pkName b) ops"
    and "set (tb_nullable b) = set (passed_to_addNullable ops)"
    and "set (declared_not_unique ops) \<inter> set (tb_uniqueIndices b) = {}"
    and "builder_inv b"
proof -
  from assms obtain b0 where b0: "TableBuilder tableName = Inr b0" "calls b0 ops = Inr b"
    by (rule build_Inr)
  note init = TableBuilder_Inr[OF b0(1)]
  have inv0: "builder_inv b0"
    by (subst init(2)) (simp add: builder_inv_def init(1))
  show "tb_name b = tableName"
    using calls_fields(1)[OF b0(2)] by (subst (asm) init(2)) simp
  show "naming_rule tableName" by (rule init(1))
  show pk: "tb_pkName b = ''pk'' @ toUpperCase (hd tableName) # tl tableName"
    using calls_fields(2)[OF b0(2)] by (subst (asm) init(2)) simp
  show "tb_columns b = declared_columns ops"
    using calls_fields(3)[OF b0(2)] by (subst (asm) init(2)) simp
  show "tb_uniqueIndices b = declared_unique (tb_pkName b) ops"
    using calls_fields(4)[OF b0(2)] calls_fields(2)[OF b0(2)] by (subst (asm) init(2)) simp
  show "set (tb_nullable b) = set (passed_to_addNullable ops)"
    using calls_fields(5)[OF b0(2)] by (subst (asm) init(2)) simp
  show "set (declared_not_unique ops) \<inter> set (tb_uniqueIndices b) = {}"
    by (rule calls_not_unique[OF b0(2)])
  show "builder_inv b"
    by (rule calls_inv[OF b0(2) inv0])
qed

subsection \<open>What \<open>getSchema()\<close> returns\<close>

lemma store_columns_stored:
  "fst (store_columns cols props proto) m \<noteq> None
     \<longleftrightarrow> props m \<noteq> None \<or> (m \<noteq> ''__proto__'' \<and> m \<in> getName ` set cols)"
  by (induction cols arbitrary: props proto) auto

lemma store_columns_prototype:
  "snd (store_columns cols props proto) \<noteq> None
     \<longleftrightarrow> proto \<noteq> None \<or> ''__proto__'' \<in> getName ` set cols"
  by (induction cols arbitrary: props proto) auto

lemma getSchema_Inr:
  assumes "getSchema norm b = Inr t"
  shows "tbl_name t = tb_name b"
    and "tbl_cols t = generated_cols b"
    and "tbl_indices t = generated_indices b"
    and "rc_columns (tbl_rowClass t) = generated_cols b"
    and "rc_indices (tbl_rowClass t) = generated_indices b"
    and "fill_functionMap norm b (generated_indices b) Map.empty
           = Inr (functionMap (tbl_rowClass t))"
    and "getPrimaryKey (tbl_constraint t) =
           (case Map_get (tb_indices b) (tb_pkName b) of
              Some pkCols \<Rightarrow> Some \<lparr> idx_tableName = tb_name b, idx_name = tb_pkName b,
                                     idx_isUnique = True, idx_columns = Some pkCols \<rparr>
            | None \<Rightarrow> None)"
    and "getNotNullable (tbl_constraint t) =
           filter (\<lambda>col. \<not> Set_contains (tb_nullable b) (getName col)) (generated_cols b)"
    and "getForeignKeys (tbl_constraint t) = []"
    and "getUniqueKeys (tbl_constraint t) =
           map (\<lambda>indexName. \<lparr> idx_tableName = tb_name b, idx_name = indexName,
                                idx_isUnique = True,
                                idx_columns = Map_get (tb_indices b) indexName \<rparr>)
               (tb_uniqueIndices b)"
    and "tbl_columnProps t =
           (fst (store_columns (generated_cols b) Map.empty None))
             (''cols_'' := None, ''constraint_'' := None, ''rowClass_'' := None)"
    and "tbl_prototype t = snd (store_columns (generated_cols b) Map.empty None)"
  using assms
  by (auto simp: getSchema_def generateRowClass_def Set_getValues_def Let_def
           split: sum.splits)

lemma method_of_generated:
  assumes "getSchema norm b = Inr t"
    and "m \<noteq> ''cols_''" "m \<noteq> ''constraint_''" "m \<noteq> ''rowClass_''" "m \<noteq> ''__proto__''"
  shows "method_of t m = (if shadowed t m then Inl TypeError else Inr ())"
proof -
  note f = getSchema_Inr(2,11,12)[OF assms(1)]
  have p: "tbl_columnProps t m \<noteq> None \<longleftrightarrow> m \<in> getName ` set (tbl_cols t)"
    using assms(2-5) store_columns_stored[of "generated_cols b" Map.empty None m]
    by (simp add: f)
  have q: "tbl_prototype t \<noteq> None \<longleftrightarrow> ''__proto__'' \<in> getName ` set (tbl_cols t)"
    using store_columns_prototype[of "generated_cols b" Map.empty None] by (simp add: f)
  show ?thesis
    using p q by (auto simp: method_of_def shadowed_def split: option.splits)
qed

lemma fill_functionMap_dom:
  "fill_functionMap norm b ixs fm = Inr fm' \<Longrightarrow> dom fm' = dom fm \<union> norm ` set ixs"
  by (induction ixs arbitrary: fm) (auto simp: Let_def split: option.splits list.splits if_splits)

lemma getSchema_functionMap_dom:
  assumes "getSchema norm b = Inr t"
  shows "dom (functionMap (tbl_rowClass t)) = norm ` set (tbl_indices t)"
  using fill_functionMap_dom[OF getSchema_Inr(6)[OF assms]] getSchema_Inr(3)[OF assms] by simp

subsection \<open>The example table\<close>

lemma example_build: "build ''job'' example_ops = Inr example_builder"
  by code_simp

lemmas example_defs =
  example_builder_def example_table_def example_cols_def example_pk_def example_uq_def
  example_idx_def

lemma example_schema: "getSchema dotted_name example_builder = Inr example_table"
  by (simp add: example_defs getSchema_def generated_cols_def generated_indices_def
      generateRowClass_def dotted_name_def Map_get_def Set_contains_def Set_getValues_def
      Let_def)

lemma example_methods:
  "method_of example_table ''getConstraint'' = Inr ()"
  "method_of example_table ''createRow'' = Inr ()"
  "method_of example_table ''deserializeRow'' = Inr ()"
  by (simp_all add: method_of_def example_table_def)

subsection \<open>Index keys\<close>

text \<open>
  C10. For every row of a table that \<open>getSchema()\<close> generated, \<open>keyOfIndex(indexName)\<close>
  returns the row's id whenever \<open>indexName\<close> contains the character \<open>#\<close>, whatever the
  declared indices are, and returns \<open>null\<close> whenever \<open>indexName\<close> contains no \<open>#\<close> and is
  the normalized name of no declared index.
\<close>

theorem keyOfIndex_edge_cases:
  assumes "getSchema getNormalizedName b = Inr t"
  shows "(CHR ''#'' \<in> set indexName \<longrightarrow> keyOfIndex t r indexName = Inr (JNumber (row_id r)))
       \<and> (CHR ''#'' \<notin> set indexName \<and> indexName \<notin> getNormalizedName ` set (tbl_indices t)
            \<longrightarrow> keyOfIndex t r indexName = Inr JNull)"
proof -
  have "indexName \<notin> getNormalizedName ` set (tbl_indices t)
        \<Longrightarrow> functionMap (tbl_rowClass t) indexName = None"
    using getSchema_functionMap_dom[OF assms] by blast
  then show ?thesis
    by (auto simp: keyOfIndex_def)
qed

theorem keyOfIndex_edge_cases_witness:
  "getSchema dotted_name example_builder = Inr example_table
   \<and> CHR ''#'' \<in> set ''job.idx_hired#1''
   \<and> keyOfIndex example_table example_row ''job.idx_hired#1'' = Inr (JNumber 7)
   \<and> CHR ''#'' \<notin> set ''job.missing''
   \<and> ''job.missing'' \<notin> dotted_name ` set (tbl_indices example_table)
   \<and> keyOfIndex example_table example_row ''job.missing'' = Inr JNull"
proof -
  have h1: "CHR ''#'' \<in> set ''job.idx_hired#1''"
    by simp
  have h2: "CHR ''#'' \<notin> set ''job.missing''
            \<and> ''job.missing'' \<notin> dotted_name ` set (tbl_indices example_table)"
    by (simp add: example_defs dotted_name_def)
  have c1: "keyOfIndex example_table example_row ''job.idx_hired#1''
              = Inr (JNumber (row_id example_row))"
    using keyOfIndex_edge_cases[OF example_schema, of "''job.idx_hired#1''" example_row] h1
    by blast
  have c2: "keyOfIndex example_table example_row ''job.missing'' = Inr JNull"
    using keyOfIndex_edge_cases[OF example_schema, of "''job.missing''" example_row] h2
    by blast
  show ?thesis
    using example_schema h1 h2 c1 c2 by (simp add: example_row_def)
qed

subsection \<open>Constraint metadata\<close>

lemma getConstraint_generated:
  assumes "getSchema norm b = Inr t"
  shows "getConstraint t =
           (if shadowed t ''getConstraint'' then Inl TypeError else Inr (tbl_constraint t))"
  using method_of_generated[OF assms, of "''getConstraint''"] by (simp add: getConstraint_def)

lemma getConstraint_Inr:
  "getConstraint t = Inr c \<Longrightarrow> c = tbl_constraint t"
  by (auto simp: getConstraint_def split: sum.splits)

lemma example_getConstraint: "getConstraint example_table = Inr (tbl_constraint example_table)"
  by (simp add: getConstraint_def example_methods)

text \<open>
  Whenever \<open>getSchema().getConstraint()\<close> returns a constraint, its not-nullable list holds
  exactly the declared columns that were never passed to \<open>addNullable\<close>: it is the table's
  column list, which is the list of the declared columns, without the columns passed to
  \<open>addNullable\<close>.
\<close>

lemma notNullable_metadata:
  assumes "build tableName ops = Inr b" and "getSchema getNormalizedName b = Inr t"
    and "getConstraint t = Inr c"
  shows "getNotNullable c
           = filter (\<lambda>col. getName col \<notin> set (passed_to_addNullable ops)) (tbl_cols t)
       \<and> map (\<lambda>col. (getName col, getType col)) (tbl_cols t) = declared_columns ops"
proof -
  have "map (\<lambda>col. (getName col, getType col)) (generated_cols b) = tb_columns b"
    by (simp add: generated_cols_def comp_def case_prod_unfold)
  then show ?thesis
    using getSchema_Inr(2,8)[OF assms(2)] build_fields(4,6)[OF assms(1)]
      getConstraint_Inr[OF assms(3)]
    by (simp add: Set_contains_def)
qed

lemma notNullable_metadata_example:
  "map getName (getNotNullable (tbl_constraint example_table)) = [''id'', ''title'', ''hired'']"
proof -
  have c: "getNotNullable (tbl_constraint example_table)
        = filter (\<lambda>col. getName col \<notin> set (passed_to_addNullable example_ops))
            (tbl_cols example_table)"
    using notNullable_metadata[OF example_build example_schema example_getConstraint] by blast
  have "map getName (filter (\<lambda>col. getName col \<notin> set (passed_to_addNullable example_ops))
            (tbl_cols example_table)) = [''id'', ''title'', ''hired'']"
    by (simp add: example_ops_def example_table_def example_cols_def)
  with c show ?thesis by simp
qed

text \<open>
  C6 says that the not-nullable list of the constraint that \<open>getSchema().getConstraint()\<close>
  returns holds exactly the declared columns that were never passed to \<open>addNullable\<close>. On a
  table with a column named \<open>getConstraint\<close> the call returns no constraint: the column
  object that the constructor has stored in the table under that name is read in place of
  the method, and the call is a \<open>TypeError\<close>.
\<close>

theorem notNullable_of_shadowed_getConstraint:
  "then_call
     (schema_of dotted_name ''T''
        [AddColumn ''getConstraint'' INTEGER, AddColumn ''a'' STRING, AddNullable [''a'']])
     getConstraint
   = Inl TypeError"
proof -
  have "build ''T''
          [AddColumn ''getConstraint'' INTEGER, AddColumn ''a'' STRING, AddNullable [''a'']]
        = Inr \<lparr> tb_name = ''T'',
                tb_columns = [(''getConstraint'', INTEGER), (''a'', STRING)],
                tb_uniqueColumns = [], tb_uniqueIndices = [], tb_nullable = [''a''],
                tb_pkName = ''pkT'', tb_indices = [], tb_persistIndex = False \<rparr>"
    by code_simp
  then show ?thesis
    by (simp add: then_call_def schema_of_def getSchema_def generateRowClass_def
        generated_indices_def generated_cols_def getConstraint_def method_of_def Let_def)
qed

lemma unique_index_generated:
  assumes "builder_inv b" and "name \<in> set (tb_uniqueIndices b)"
  shows "\<lparr> idx_tableName = tb_name b, idx_name = name, idx_isUnique = True,
           idx_columns = Map_get (tb_indices b) name \<rparr> \<in> set (generated_indices b)"
proof -
  from assms have "name \<in> fst ` set (tb_indices b)"
    by (auto simp: builder_inv_def)
  then obtain cols where cols: "(name, cols) \<in> set (tb_indices b)"
    by auto
  with assms(1) have "Map_get (tb_indices b) name = Some cols"
    by (simp add: builder_inv_def Map_get_def)
  with cols assms(2) show ?thesis
    by (force simp: generated_indices_def Set_contains_def)
qed

text \<open>
  Whenever \<open>getSchema().getConstraint()\<close> returns a constraint, its unique-index list holds
  exactly the indices declared unique: its names are, in the order of the calls, the primary
  key's name for \<open>addPrimaryKey\<close>, the name given to \<open>addUnique\<close> and the name given to
  \<open>addIndex\<close> with the unique flag set; each of its members is flagged unique and is one of
  the table's indices; no name given to \<open>addIndex\<close> without the unique flag is in it.
\<close>

lemma unique_metadata:
  assumes "build tableName ops = Inr b" and "getSchema getNormalizedName b = Inr t"
    and "getConstraint t = Inr c"
  shows "map idx_name (getUniqueKeys c) = declared_unique (tb_pkName b) ops
       \<and> (\<forall>index \<in> set (getUniqueKeys c). idx_isUnique index \<and> index \<in> set (tbl_indices t))
       \<and> set (declared_not_unique ops) \<inter> idx_name ` set (getUniqueKeys c) = {}"
proof -
  note c = getConstraint_Inr[OF assms(3)]
  note u = getSchema_Inr(10)[OF assms(2)]
  have names: "map idx_name (getUniqueKeys c) = tb_uniqueIndices b"
    by (simp add: c u comp_def)
  have "\<forall>index \<in> set (getUniqueKeys c). idx_isUnique index \<and> index \<in> set (tbl_indices t)"
    using unique_index_generated[OF build_fields(8)[OF assms(1)]]
    by (auto simp: c u getSchema_Inr(3)[OF assms(2)])
  moreover have "set (declared_not_unique ops) \<inter> idx_name ` set (getUniqueKeys c) = {}"
    using build_fields(7)[OF assms(1)] names by (metis set_map)
  ultimately show ?thesis
    using names build_fields(5)[OF assms(1)] by simp
qed

lemma unique_metadata_example:
  "map idx_name (getUniqueKeys (tbl_constraint example_table)) = [''pkJob'', ''uq_title'']"
proof -
  have "declared_unique (tb_pkName example_builder) example_ops = [''pkJob'', ''uq_title'']"
    by (simp add: example_ops_def example_builder_def)
  then show ?thesis
    using unique_metadata[OF example_build example_schema example_getConstraint]
    by simp
qed

text \<open>
  C5 says that the unique-index list of the constraint that \<open>getSchema().getConstraint()\<close>
  returns holds exactly the indices declared unique. On a table with a column named
  \<open>getConstraint\<close>, here with a unique index declared on it, the call returns no
  constraint: it is a \<open>TypeError\<close>, for the column object stored in the table under the
  method's name.
\<close>

theorem unique_of_shadowed_getConstraint:
  "then_call
     (schema_of dotted_name ''T''
        [AddColumn ''getConstraint'' INTEGER, AddUnique ''uq'' [''getConstraint'']])
     getConstraint
   = Inl TypeError"
proof -
  have "build ''T'' [AddColumn ''getConstraint'' INTEGER, AddUnique ''uq'' [''getConstraint'']]
        = Inr \<lparr> tb_name = ''T'', tb_columns = [(''getConstraint'', INTEGER)],
                tb_uniqueColumns = [], tb_uniqueIndices = [''uq''], tb_nullable = [],
                tb_pkName = ''pkT'',
                tb_indices = [(''uq'', [\<lparr>ic_name = ''getConstraint'', ic_order = ASC,
                                         ic_autoIncrement = False\<rparr>])],
                tb_persistIndex = False \<rparr>"
    by code_simp
  then show ?thesis
    by (simp add: then_call_def schema_of_def getSchema_def generateRowClass_def
        generated_indices_def generated_cols_def getConstraint_def method_of_def Let_def
        Map_get_def Set_contains_def)
qed

text \<open>
  C3 says that after \<open>addForeignKey(name, localColumn, remoteTable, remoteColumn)\<close> the
  constraint of the table exposes the declared foreign key. The example program declares
  one, \<open>getConstraint()\<close> of the table it builds returns the constraint, and the constraint
  has none.
\<close>

theorem foreign_key_counterexample:
  "AddForeignKey ''fk_dept'' ''id'' ''dept'' ''id'' None \<in> set example_ops
   \<and> schema_of dotted_name ''job'' example_ops = Inr example_table
   \<and> getConstraint example_table = Inr (tbl_constraint example_table)
   \<and> \<lparr> fk_name = ''fk_dept'', fk_localColumn = ''id'', fk_remoteTable = ''dept'',
        fk_remoteColumn = ''id'', fk_cascade = None \<rparr>
        \<notin> set (getForeignKeys (tbl_constraint example_table))"
  by (simp add: schema_of_def example_build example_schema example_getConstraint)
     (simp add: example_ops_def example_table_def)

text \<open>
  C3, as the code has it: \<open>addForeignKey\<close> is not implemented. It returns the builder
  unchanged, and whenever \<open>getConstraint()\<close> of a table that \<open>getSchema()\<close> returned returns
  a constraint, the foreign-key list of that constraint is empty.
\<close>

theorem foreign_keys_not_recorded:
  "addForeignKey b name localColumn remoteTable remoteColumn opt_cascade = Inr b
   \<and> (getSchema getNormalizedName b = Inr t \<and> getConstraint t = Inr c
        \<longrightarrow> getForeignKeys c = [])"
  using getSchema_Inr(9)[of getNormalizedName b t] getConstraint_Inr[of t c]
  by (auto simp: addForeignKey_def)

theorem foreign_keys_not_recorded_witness:
  "addForeignKey example_builder ''fk_dept'' ''id'' ''dept'' ''id'' None = Inr example_builder
   \<and> getSchema dotted_name example_builder = Inr example_table
   \<and> getConstraint example_table = Inr (tbl_constraint example_table)
   \<and> getForeignKeys (tbl_constraint example_table) = []"
  using foreign_keys_not_recorded[of example_builder "''fk_dept''" "''id''" "''dept''" "''id''"
      None dotted_name example_table "tbl_constraint example_table"]
    example_schema example_getConstraint
  by simp

text \<open>
  What \<open>addPrimaryKey\<close> declares is there: when a call of it has returned and
  \<open>getConstraint()\<close> returns a constraint, the constraint's primary key is the unique index
  of the primary key's name over the columns given, and each of those columns is marked
  unique.
\<close>

lemma normalizeColumns_names:
  "normalizeColumns b columns ci ord ainc = Inr cols \<Longrightarrow> map ic_name cols = column_names columns"
  by (cases columns) (auto simp: normalizeColumns_def column_names_def Let_def comp_def
      split: sum.splits)

lemma call_keeps:
  assumes "call b x = Inr b'"
  shows "set (tb_indices b) \<subseteq> set (tb_indices b')"
    and "set (tb_uniqueColumns b) \<subseteq> set (tb_uniqueColumns b')"
  using assms by (cases rule: call_Inr_cases; auto simp: set_foldl_Set_add)+

lemma calls_keeps:
  assumes "calls b xs = Inr b'"
  shows "set (tb_indices b) \<subseteq> set (tb_indices b')"
    and "set (tb_uniqueColumns b) \<subseteq> set (tb_uniqueColumns b')"
proof -
  have "set (tb_indices b) \<subseteq> set (tb_indices b')
        \<and> set (tb_uniqueColumns b) \<subseteq> set (tb_uniqueColumns b')"
    using assms
  proof (induction xs arbitrary: b)
    case Nil
    then show ?case by simp
  next
    case (Cons x xs)
    then obtain b1 where s: "call b x = Inr b1" "calls b1 xs = Inr b'"
      by (auto split: sum.splits)
    from call_keeps[OF s(1)] Cons.IH[OF s(2)] show ?case
      by blast
  qed
  then show "set (tb_indices b) \<subseteq> set (tb_indices b')"
    and "set (tb_uniqueColumns b) \<subseteq> set (tb_uniqueColumns b')"
    by simp_all
qed

lemma calls_primary_key:
  assumes "calls b xs = Inr b'" and "AddPrimaryKey columns opt_autoInc \<in> set xs"
  shows "\<exists>cols. (tb_pkName b, cols) \<in> set (tb_indices b')
               \<and> map ic_name cols = column_names columns
               \<and> set (column_names columns) \<subseteq> set (tb_uniqueColumns b')"
  using assms
proof (induction xs arbitrary: b)
  case Nil
  then show ?case by simp
next
  case (Cons x xs)
  then obtain b1 where s: "call b x = Inr b1" "calls b1 xs = Inr b'"
    by (auto split: sum.splits)
  show ?case
  proof (cases "x = AddPrimaryKey columns opt_autoInc")
    case True
    with s(1) obtain cols where cols:
      "normalizeColumns b columns True None opt_autoInc = Inr cols"
      "(tb_pkName b, cols) \<in> set (tb_indices b1)"
      "set (map ic_name cols) \<subseteq> set (tb_uniqueColumns b1)"
      by (cases rule: call_Inr_cases) (auto simp: set_foldl_Set_add)
    with calls_keeps[OF s(2)] normalizeColumns_names[OF cols(1)] show ?thesis
      by auto
  next
    case False
    with Cons.prems(2) have "AddPrimaryKey columns opt_autoInc \<in> set xs"
      by simp
    from Cons.IH[OF s(2) this] call_fields(2)[OF s(1)] show ?thesis
      by simp
  qed
qed

lemma primary_key_declared:
  assumes "build tableName ops = Inr b" and "getSchema getNormalizedName b = Inr t"
    and "AddPrimaryKey columns opt_autoInc \<in> set ops" and "getConstraint t = Inr c"
  shows "\<exists>cols. getPrimaryKey c
                  = Some \<lparr> idx_tableName = tableName, idx_name = tb_pkName b,
                           idx_isUnique = True, idx_columns = Some cols \<rparr>
               \<and> map ic_name cols = column_names columns
               \<and> (\<forall>col \<in> set (tbl_cols t).
                     getName col \<in> set (column_names columns) \<longrightarrow> isUnique col)"
proof -
  from assms(1) obtain b0 where b0: "TableBuilder tableName = Inr b0" "calls b0 ops = Inr b"
    by (rule build_Inr)
  from calls_primary_key[OF b0(2) assms(3)] calls_fields(2)[OF b0(2)]
  obtain cols where cols: "(tb_pkName b, cols) \<in> set (tb_indices b)"
      "map ic_name cols = column_names columns"
      "set (column_names columns) \<subseteq> set (tb_uniqueColumns b)"
    by auto
  from build_fields(8)[OF assms(1)] cols(1)
  have "Map_get (tb_indices b) (tb_pkName b) = Some cols"
    by (simp add: builder_inv_def Map_get_def)
  with cols(2,3) show ?thesis
    by (auto simp: getConstraint_Inr[OF assms(4)] getSchema_Inr(2,7)[OF assms(2)]
        build_fields(1)[OF assms(1)] generated_cols_def Set_contains_def)
qed

text \<open>
  C4 says that the constraint's primary key is \<open>null\<close> if \<open>addPrimaryKey\<close> was never
  called. The constructor tells the primary key by its name alone: on the table \<open>T\<close> an
  index that \<open>addIndex\<close> stores under the name \<open>pkT\<close>, not unique, is handed out as the
  primary key, flagged unique.
\<close>

theorem primary_key_of_plain_index:
  "map_sum id getPrimaryKey
     (then_call
        (schema_of dotted_name ''T''
           [AddColumn ''a'' INTEGER, AddIndex ''pkT'' (Names [''a'']) None None])
        getConstraint)
   = Inr (Some \<lparr> idx_tableName = ''T'', idx_name = ''pkT'', idx_isUnique = True,
                  idx_columns = Some [\<lparr>ic_name = ''a'', ic_order = ASC,
                                       ic_autoIncrement = False\<rparr>] \<rparr>)"
proof -
  have "build ''T'' [AddColumn ''a'' INTEGER, AddIndex ''pkT'' (Names [''a'']) None None]
        = Inr \<lparr> tb_name = ''T'', tb_columns = [(''a'', INTEGER)], tb_uniqueColumns = [],
                tb_uniqueIndices = [], tb_nullable = [], tb_pkName = ''pkT'',
                tb_indices = [(''pkT'', [\<lparr>ic_name = ''a'', ic_order = ASC,
                                          ic_autoIncrement = False\<rparr>])],
                tb_persistIndex = False \<rparr>"
    by code_simp
  then show ?thesis
    by (simp add: then_call_def schema_of_def getSchema_def generateRowClass_def
        generated_indices_def generated_cols_def getConstraint_def method_of_def Map_get_def
        Let_def)
qed

subsection \<open>Row factory\<close>

lemma generated_cols_names:
  "map (\<lambda>col. (getName col, getType col)) (generated_cols b) = tb_columns b"
  "map getName (generated_cols b) = map fst (tb_columns b)"
  by (simp_all add: generated_cols_def comp_def case_prod_unfold)

lemma distinct_generated_cols: "builder_inv b \<Longrightarrow> distinct (map getName (generated_cols b))"
  by (simp add: generated_cols_names builder_inv_def)

lemma foldl_jsset_dom:
  "dom (foldl (\<lambda>ob col. jsset ob (getName col) (f col)) ob0 cols)
     = dom ob0 \<union> (getName ` set cols - {''__proto__''})"
  by (induction cols arbitrary: ob0) (auto simp: jsset_def)

lemma foldl_jsset_value:
  assumes "distinct (map getName cols)" and "col \<in> set cols"
    and "getName col \<noteq> ''__proto__''"
  shows "foldl (\<lambda>ob col. jsset ob (getName col) (f col)) ob0 cols (getName col) = Some (f col)"
  using assms(1,2)
proof (induction cols arbitrary: rule: rev_induct)
  case Nil
  then show ?case by simp
next
  case (snoc x xs)
  show ?case
  proof (cases "col = x")
    case True
    with assms(3) show ?thesis by (simp add: jsset_def)
  next
    case False
    with snoc.prems have in_xs: "col \<in> set xs"
      by simp
    then have "getName col \<in> getName ` set xs"
      by (rule imageI)
    with snoc.prems have "getName col \<noteq> getName x"
      by auto
    with snoc in_xs show ?thesis by (simp add: jsset_def)
  qed
qed

lemma createRow_generated:
  assumes "getSchema norm b = Inr t"
  shows "createRow DEFAULT_VALUES t opt_value nextId =
           (if shadowed t ''createRow'' then Inl TypeError
            else Inr (new_Row DEFAULT_VALUES (tbl_rowClass t) nextId opt_value, nextId + 1))"
  using method_of_generated[OF assms, of "''createRow''"] by (simp add: createRow_def)

text \<open>
  For every table built by the builder, \<open>defaultPayload()\<close> of the generated row class
  returns an object that has, for each declared column name other than \<open>__proto__\<close>, the
  default value of that column's type (\<open>lf.type.DEFAULT_VALUES\<close>) and has no other property,
  the columns of the table being the declared ones; and whenever \<open>createRow()\<close> with no
  payload returns a row, the row carries exactly this object.
\<close>

lemma defaultPayload_defaults:
  assumes "build tableName ops = Inr b" and "getSchema getNormalizedName b = Inr t"
  shows "(\<forall>col \<in> set (tbl_cols t).
            getName col \<noteq> ''__proto__'' \<longrightarrow>
            defaultPayload DEFAULT_VALUES (tbl_rowClass t) (getName col)
              = Some (DEFAULT_VALUES (getType col)))
       \<and> dom (defaultPayload DEFAULT_VALUES (tbl_rowClass t))
           = getName ` set (tbl_cols t) - {''__proto__''}
       \<and> map (\<lambda>col. (getName col, getType col)) (tbl_cols t) = declared_columns ops
       \<and> (\<forall>r n. createRow DEFAULT_VALUES t None nextId = Inr (r, n)
             \<longrightarrow> row_payload r = defaultPayload DEFAULT_VALUES (tbl_rowClass t))"
proof -
  note cols = getSchema_Inr(2,4)[OF assms(2)]
  have d: "distinct (map getName (generated_cols b))"
    by (rule distinct_generated_cols[OF build_fields(8)[OF assms(1)]])
  have "row_payload r = defaultPayload DEFAULT_VALUES (tbl_rowClass t)"
    if "createRow DEFAULT_VALUES t None nextId = Inr (r, n)" for r n
    using that by (auto simp: createRow_def new_Row_def split: sum.splits)
  then show ?thesis
    using foldl_jsset_value[OF d, of _ "\<lambda>col. DEFAULT_VALUES (getType col)" Map.empty]
    by (simp add: defaultPayload_def cols foldl_jsset_dom
        generated_cols_names(1) build_fields(4)[OF assms(1)])
qed

lemma defaultPayload_defaults_example:
  "defaultPayload example_DEFAULT_VALUES (tbl_rowClass example_table) ''hired''
     = Some (JDate (Some 0))
   \<and> map_sum id (\<lambda>(r, n). (row_payload r ''hired'', n))
        (createRow example_DEFAULT_VALUES example_table None 0)
     = Inr (Some (JDate (Some 0)), 1)"
proof -
  have m: "\<lparr>getName = ''hired'', isUnique = False, getType = DATE_TIME\<rparr>
             \<in> set (tbl_cols example_table)"
    by (simp add: example_table_def example_cols_def)
  note inst = defaultPayload_defaults[OF example_build example_schema,
      of example_DEFAULT_VALUES 0]
  from inst m have "defaultPayload example_DEFAULT_VALUES (tbl_rowClass example_table)
          (getName \<lparr>getName = ''hired'', isUnique = False, getType = DATE_TIME\<rparr>)
        = Some (example_DEFAULT_VALUES
                  (getType \<lparr>getName = ''hired'', isUnique = False, getType = DATE_TIME\<rparr>))"
    by force
  then show ?thesis
    by (simp add: createRow_def example_methods new_Row_def)
qed

text \<open>
  C7 says that \<open>defaultPayload()\<close> maps each declared column name to the default value of
  the column's type, so that a row created by \<open>createRow()\<close> with no payload carries these
  defaults. On a table with a column named \<open>createRow\<close> the call creates no row: the
  column object that the constructor has stored in the table under that name is read in
  place of the method, and the call is a \<open>TypeError\<close>.
\<close>

theorem createRow_of_shadowed_createRow:
  "then_call (schema_of dotted_name ''T'' [AddColumn ''createRow'' INTEGER])
     (\<lambda>t. createRow example_DEFAULT_VALUES t None 0)
   = Inl TypeError"
proof -
  have "build ''T'' [AddColumn ''createRow'' INTEGER]
        = Inr \<lparr> tb_name = ''T'', tb_columns = [(''createRow'', INTEGER)],
                tb_uniqueColumns = [], tb_uniqueIndices = [], tb_nullable = [],
                tb_pkName = ''pkT'', tb_indices = [], tb_persistIndex = False \<rparr>"
    by code_simp
  then show ?thesis
    by (simp add: then_call_def schema_of_def getSchema_def generateRowClass_def
        generated_indices_def generated_cols_def createRow_def method_of_def Let_def)
qed

subsection \<open>The key of an index\<close>











subsection \<open>Serialization\<close>

lemma toDbPayload_loop_other:
  "toDbPayload_loop binToHex payload cols ob = Inr ob' \<Longrightarrow> k \<notin> getName ` set cols
     \<Longrightarrow> ob' k = ob k"
  by (induction cols arbitrary: ob) (auto simp: Let_def jsset_def split: sum.splits if_splits)

lemma toDbPayload_loop_value:
  assumes "toDbPayload_loop binToHex payload cols ob = Inr ob'"
    and "distinct (map getName cols)" and "col \<in> set cols"
    and "''__proto__'' \<notin> getName ` set cols"
  shows "toDb_value binToHex (getType col) (jsget payload (getName col))
           = Inr (jsget ob' (getName col))"
  using assms
proof (induction cols arbitrary: ob)
  case Nil
  then show ?case by simp
next
  case (Cons x xs)
  from Cons.prems(1) obtain stored where
    st: "toDb_value binToHex (getType x) (jsget payload (getName x)) = Inr stored"
      "toDbPayload_loop binToHex payload xs (jsset ob (getName x) stored) = Inr ob'"
    by (auto simp: Let_def split: sum.splits)
  show ?case
  proof (cases "col = x")
    case True
    from Cons.prems(2) have "getName x \<notin> getName ` set xs"
      by simp
    from toDbPayload_loop_other[OF st(2) this] st(1) True Cons.prems(4) show ?thesis
      by (auto simp: jsget_def jsset_def)
  next
    case False
    with Cons.prems have "distinct (map getName xs)" "col \<in> set xs"
        "''__proto__'' \<notin> getName ` set xs"
      by simp_all
    from Cons.IH[OF st(2) this] show ?thesis .
  qed
qed

lemma toDbPayload_loop_returns:
  assumes "\<forall>col \<in> set cols. \<exists>x. toDb_value binToHex (getType col) (jsget payload (getName col)) = Inr x"
  shows "\<exists>ob'. toDbPayload_loop binToHex payload cols ob = Inr ob'"
  using assms by (induction cols arbitrary: ob) (auto simp: Let_def)

lemma deserializeRow_loop_other:
  "deserializeRow_loop hexToBin parseDate stored cols ob = Inr ob' \<Longrightarrow> k \<notin> getName ` set cols
     \<Longrightarrow> ob' k = ob k"
  by (induction cols arbitrary: ob) (auto simp: Let_def jsset_def split: sum.splits if_splits)

lemma deserializeRow_loop_value:
  assumes "deserializeRow_loop hexToBin parseDate stored cols ob = Inr ob'"
    and "distinct (map getName cols)" and "col \<in> set cols"
    and "''__proto__'' \<notin> getName ` set cols"
  shows "fromDb_value hexToBin parseDate (getType col) (jsget stored (getName col))
           = Inr (jsget ob' (getName col))"
  using assms
proof (induction cols arbitrary: ob)
  case Nil
  then show ?case by simp
next
  case (Cons x xs)
  from Cons.prems(1) obtain y where
    st: "fromDb_value hexToBin parseDate (getType x) (jsget stored (getName x)) = Inr y"
      "deserializeRow_loop hexToBin parseDate stored xs (jsset ob (getName x) y) = Inr ob'"
    by (auto simp: Let_def split: sum.splits)
  show ?case
  proof (cases "col = x")
    case True
    from Cons.prems(2) have "getName x \<notin> getName ` set xs"
      by simp
    from deserializeRow_loop_other[OF st(2) this] st(1) True Cons.prems(4) show ?thesis
      by (auto simp: jsget_def jsset_def)
  next
    case False
    with Cons.prems have "distinct (map getName xs)" "col \<in> set xs"
        "''__proto__'' \<notin> getName ` set xs"
      by simp_all
    from Cons.IH[OF st(2) this] show ?thesis .
  qed
qed

lemma deserializeRow_loop_returns:
  assumes "\<forall>col \<in> set cols.
             \<exists>y. fromDb_value hexToBin parseDate (getType col) (jsget stored (getName col)) = Inr y"
  shows "\<exists>ob'. deserializeRow_loop hexToBin parseDate stored cols ob = Inr ob'"
  using assms by (induction cols arbitrary: ob) (auto simp: Let_def)

lemma new_Date_getTime:
  assumes "is_Date v" and "getTime v = Inr ms"
  shows "ms \<noteq> JNull" and "new_Date parseDate ms = v"
  using assms
  by (auto simp: is_Date_def getTime_def new_Date_def TimeClip_def split: jsval.splits option.splits)

lemma value_roundtrip:
  assumes "well_typed_value type v"
    and "\<forall>bytes. \<exists>hex. binToHex (JArrayBuffer bytes) = Inr hex \<and> hex \<noteq> JNull
                        \<and> hexToBin hex = Inr (JArrayBuffer bytes)"
  shows "\<exists>x. toDb_value binToHex type v = Inr x \<and> fromDb_value hexToBin parseDate type x = Inr v"
proof -
  consider (bin) "type = ARRAY_BUFFER" | (date) "type = DATE_TIME"
    | (plain) "type \<noteq> ARRAY_BUFFER" "type \<noteq> DATE_TIME"
    by blast
  then show ?thesis
  proof cases
    case bin
    show ?thesis
    proof (cases "v = JNull")
      case True
      with bin show ?thesis by (simp add: toDb_value_def fromDb_value_def)
    next
      case False
      with bin assms(1) obtain bytes where v: "v = JArrayBuffer bytes"
        by (auto simp: well_typed_value_def is_ArrayBuffer_def split: jsval.splits)
      from assms(2) obtain hex where "binToHex (JArrayBuffer bytes) = Inr hex" "hex \<noteq> JNull"
          "hexToBin hex = Inr (JArrayBuffer bytes)"
        by blast
      with bin v show ?thesis by (simp add: toDb_value_def fromDb_value_def)
    qed
  next
    case date
    show ?thesis
    proof (cases "v = JNull")
      case True
      with date show ?thesis by (simp add: toDb_value_def fromDb_value_def)
    next
      case False
      with date assms(1) have d: "is_Date v"
        by (simp add: well_typed_value_def)
      then obtain ms where ms: "getTime v = Inr ms"
        by (auto simp: is_Date_def getTime_def split: jsval.splits)
      from new_Date_getTime[OF d ms] date False ms show ?thesis
        by (simp add: toDb_value_def fromDb_value_def)
    qed
  next
    case plain
    then show ?thesis by (simp add: toDb_value_def fromDb_value_def)
  qed
qed

text \<open>
  The round trip, where \<open>deserializeRow\<close> can be called. For every table built by the builder
  that has no column named \<open>deserializeRow\<close> or \<open>__proto__\<close>, and every row of it whose
  payload is well-typed for the table's columns, \<open>toDbPayload\<close> returns a payload to persist,
  and \<open>deserializeRow\<close> of the persisted record \<open>{id: row.id(), value: row.toDbPayload()}\<close>
  returns a row with the same id whose payload has, in every column of the table, the value
  of the row's payload, provided \<open>hexToBin\<close> undoes \<open>binToHex\<close>, which returns for an
  \<open>ArrayBuffer\<close> a value other than \<open>null\<close> (its hex string).
\<close>

lemma serialization_roundtrip:
  assumes "build tableName ops = Inr b" and "getSchema getNormalizedName b = Inr t"
    and "\<not> shadowed t ''deserializeRow''"
    and "well_typed t (row_payload r)"
    and "\<forall>bytes. \<exists>hex. binToHex (JArrayBuffer bytes) = Inr hex \<and> hex \<noteq> JNull
                        \<and> hexToBin hex = Inr (JArrayBuffer bytes)"
  shows "\<exists>stored r'.
           toDbPayload binToHex t r = Inr stored
         \<and> deserializeRow hexToBin parseDate t \<lparr> rec_id = row_id r, rec_value = stored \<rparr> = Inr r'
         \<and> row_id r' = row_id r
         \<and> (\<forall>col \<in> set (tbl_cols t).
               jsget (row_payload r') (getName col) = jsget (row_payload r) (getName col))"
proof -
  let ?cols = "generated_cols b"
  note cols = getSchema_Inr(2,4)[OF assms(2)]
  have d: "distinct (map getName ?cols)"
    by (rule distinct_generated_cols[OF build_fields(8)[OF assms(1)]])
  from assms(3) have np: "''__proto__'' \<notin> getName ` set ?cols"
    by (simp add: shadowed_def cols)
  from assms(3) have m: "method_of t ''deserializeRow'' = Inr ()"
    using method_of_generated[OF assms(2), of "''deserializeRow''"] by simp
  have rt: "\<exists>x. toDb_value binToHex (getType col) (jsget (row_payload r) (getName col)) = Inr x
              \<and> fromDb_value hexToBin parseDate (getType col) x
                  = Inr (jsget (row_payload r) (getName col))"
    if "col \<in> set ?cols" for col
    using that assms(4) value_roundtrip[OF _ assms(5)]
    by (simp add: well_typed_def cols list_all_iff)
  then obtain stored where stored: "toDbPayload_loop binToHex (row_payload r) ?cols Map.empty = Inr stored"
    using toDbPayload_loop_returns[of ?cols binToHex "row_payload r" Map.empty] by blast
  have restored: "fromDb_value hexToBin parseDate (getType col) (jsget stored (getName col))
                = Inr (jsget (row_payload r) (getName col))"
    if "col \<in> set ?cols" for col
    using rt[OF that] toDbPayload_loop_value[OF stored d that np] by auto
  then obtain ob where ob: "deserializeRow_loop hexToBin parseDate stored ?cols Map.empty = Inr ob"
    using deserializeRow_loop_returns[of ?cols hexToBin parseDate stored Map.empty] by blast
  have "jsget ob (getName col) = jsget (row_payload r) (getName col)"
    if "col \<in> set ?cols" for col
    using restored[OF that] deserializeRow_loop_value[OF ob d that np] by simp
  with stored ob m show ?thesis
    by (simp add: toDbPayload_def deserializeRow_def cols)
qed

text \<open>The hex codec of the examples: decoding undoes encoding.\<close>

lemma hex_value_digit: "n < 16 \<Longrightarrow> hex_value (hex_digit n) = n"
proof -
  assume "n < 16"
  then have "n \<in> {0, 1, 2, 3, 4, 5, 6, 7, 8, 9, 10, 11, 12, 13, 14, 15}"
    by simp arith
  then show ?thesis
    by (auto simp: hex_value_def hex_digit_def)
qed

lemma hex_to_bytes_to_hex: "hex_to_bytes (bytes_to_hex bytes) = bytes"
proof (induction bytes)
  case Nil
  then show ?case by simp
next
  case (Cons b bs)
  have "unat b < 256"
    using unsigned_less[of b] by simp
  then have "unat b div 16 < 16" "unat b mod 16 < 16"
    by simp_all
  then have "hex_value (hex_digit (unat b div 16)) * 16 + hex_value (hex_digit (unat b mod 16))
               = unat b"
    by (simp add: hex_value_digit)
  with Cons show ?case
    by simp
qed

lemma hex_codec:
  "\<forall>bytes. \<exists>hex. hex_binToHex (JArrayBuffer bytes) = Inr hex \<and> hex \<noteq> JNull
                  \<and> hex_hexToBin hex = Inr (JArrayBuffer bytes)"
  by (simp add: hex_binToHex_def hex_hexToBin_def hex_to_bytes_to_hex)

lemma example_well_typed: "well_typed example_table (row_payload example_row)"
  by (simp add: well_typed_def well_typed_value_def example_table_def example_cols_def
      example_row_def jsget_def is_Date_def is_ArrayBuffer_def)

lemma serialization_roundtrip_example:
  "\<exists>stored r'.
       toDbPayload hex_binToHex example_table example_row = Inr stored
     \<and> deserializeRow hex_hexToBin no_parseDate example_table
          \<lparr> rec_id = row_id example_row, rec_value = stored \<rparr> = Inr r'
     \<and> row_id r' = 7
     \<and> jsget (row_payload r') ''hired'' = JDate (Some 1000)
     \<and> jsget (row_payload r') ''photo'' = JArrayBuffer [31, 160]"
proof -
  have ns: "\<not> shadowed example_table ''deserializeRow''"
    by (simp add: shadowed_def example_table_def example_cols_def)
  from serialization_roundtrip[OF example_build example_schema ns example_well_typed hex_codec,
      of no_parseDate]
  obtain stored r' where r:
    "toDbPayload hex_binToHex example_table example_row = Inr stored"
    "deserializeRow hex_hexToBin no_parseDate example_table
       \<lparr> rec_id = row_id example_row, rec_value = stored \<rparr> = Inr r'"
    "row_id r' = row_id example_row"
    "\<forall>col \<in> set (tbl_cols example_table).
       jsget (row_payload r') (getName col) = jsget (row_payload example_row) (getName col)"
    by blast
  from r(4) have "jsget (row_payload r') ''hired'' = JDate (Some 1000)"
      "jsget (row_payload r') ''photo'' = JArrayBuffer [31, 160]"
    by (simp_all add: example_table_def example_cols_def example_row_def jsget_def)
  moreover from r(3) have "row_id r' = 7"
    by (simp add: example_row_def)
  ultimately show ?thesis
    using r(1,2) by blast
qed

text \<open>
  C1 says that, for every table built by the builder and every row of it with a well-typed
  payload, \<open>deserializeRow\<close> of the persisted record \<open>{id: row.id(), value:
  row.toDbPayload()}\<close> yields a row with the same id and an equivalent payload. On a table
  with a column named \<open>deserializeRow\<close>, \<open>toDbPayload\<close> of a row returns the payload to
  persist, and \<open>deserializeRow\<close> of the record yields no row: the column object that the
  constructor has stored in the table under that name is read in place of the method, and
  the call is a \<open>TypeError\<close>.
\<close>

theorem deserializeRow_of_shadowed_deserializeRow:
  "map_sum id (\<lambda>stored. stored ''deserializeRow'')
     (then_call (schema_of dotted_name ''T'' [AddColumn ''deserializeRow'' STRING])
        (\<lambda>t. toDbPayload hex_binToHex t
               \<lparr> row_id = 1, row_payload = [''deserializeRow'' \<mapsto> JString ''x''] \<rparr>))
   = Inr (Some (JString ''x''))
   \<and> then_call (schema_of dotted_name ''T'' [AddColumn ''deserializeRow'' STRING])
       (\<lambda>t. then_call
               (toDbPayload hex_binToHex t
                  \<lparr> row_id = 1, row_payload = [''deserializeRow'' \<mapsto> JString ''x''] \<rparr>)
               (\<lambda>stored. deserializeRow hex_hexToBin no_parseDate t
                             \<lparr> rec_id = 1, rec_value = stored \<rparr>))
     = Inl TypeError"
proof -
  have "build ''T'' [AddColumn ''deserializeRow'' STRING]
        = Inr \<lparr> tb_name = ''T'', tb_columns = [(''deserializeRow'', STRING)],
                tb_uniqueColumns = [], tb_uniqueIndices = [], tb_nullable = [],
                tb_pkName = ''pkT'', tb_indices = [], tb_persistIndex = False \<rparr>"
    by code_simp
  then show ?thesis
    by (simp add: then_call_def schema_of_def getSchema_def generateRowClass_def
        generated_indices_def generated_cols_def deserializeRow_def method_of_def Let_def
        toDbPayload_def toDb_value_def jsget_def jsset_def)
qed

subsection \<open>Validation\<close>

lemma throws_SYNTAX_iff: "throws_SYNTAX r \<longleftrightarrow> (\<exists>msg. r = Inl (lf_Exception SYNTAX msg))"
  by (auto simp: throws_SYNTAX_def split: sum.splits error.splits exception_type.splits)

lemma checkName_throws:
  "throws_SYNTAX (checkName b name) \<longleftrightarrow> \<not> naming_rule name \<or> already_defined b name"
  "isl (checkName b name) \<longleftrightarrow> \<not> naming_rule name \<or> already_defined b name"
  by (auto simp: checkName_def already_defined_def throws_SYNTAX_def)

lemma checkColumns_throws:
  "throws_SYNTAX (checkColumns b ci cols)
     \<longleftrightarrow> list_ex (\<lambda>c. rejected_column b ci (ic_name c)) cols"
  "isl (checkColumns b ci cols) \<longleftrightarrow> list_ex (\<lambda>c. rejected_column b ci (ic_name c)) cols"
  by (induction cols)
     (auto simp: rejected_column_def not_defined_column_def non_indexable_column_def
        throws_SYNTAX_def)

lemma normalizeColumns_throws:
  "throws_SYNTAX (normalizeColumns b columns ci ord ainc)
     \<longleftrightarrow> list_ex (rejected_column b ci) (column_names columns)"
  "isl (normalizeColumns b columns ci ord ainc)
     \<longleftrightarrow> list_ex (rejected_column b ci) (column_names columns)"
proof -
  let ?normalized = "case columns of
      Names ns \<Rightarrow> map (\<lambda>col. \<lparr> ic_name = col, ic_order = order_or_ASC ord,
                               ic_autoIncrement = bool_or_false ainc \<rparr>) ns
    | Cols cs \<Rightarrow> cs"
  have names: "map ic_name ?normalized = column_names columns"
    by (cases columns) (simp_all add: column_names_def comp_def)
  have ex: "list_ex (\<lambda>c. rejected_column b ci (ic_name c)) ?normalized
            \<longleftrightarrow> list_ex (rejected_column b ci) (column_names columns)"
    unfolding names[symmetric] by (simp add: list_ex_iff)
  show "throws_SYNTAX (normalizeColumns b columns ci ord ainc)
          \<longleftrightarrow> list_ex (rejected_column b ci) (column_names columns)"
    using checkColumns_throws[of b ci ?normalized] ex
    by (auto simp: normalizeColumns_def Let_def throws_SYNTAX_iff split: sum.splits)
  show "isl (normalizeColumns b columns ci ord ainc)
          \<longleftrightarrow> list_ex (rejected_column b ci) (column_names columns)"
    using checkColumns_throws(2)[of b ci ?normalized] ex
    by (auto simp: normalizeColumns_def Let_def split: sum.splits)
qed

lemma addColumn_throws:
  "throws_SYNTAX (addColumn b name type) \<longleftrightarrow> \<not> naming_rule name \<or> already_defined b name"
  using checkName_throws(1)[of b name]
  by (auto simp: addColumn_def throws_SYNTAX_iff split: sum.splits)

lemma addUnique_throws:
  "throws_SYNTAX (addUnique b name columns)
     \<longleftrightarrow> \<not> naming_rule name \<or> already_defined b name \<or> list_ex (rejected_column b True) columns"
  using checkName_throws[of b name] normalizeColumns_throws[of b "Names columns" True None None]
  by (auto simp: addUnique_def throws_SYNTAX_iff column_names_def split: sum.splits)

lemma addIndex_throws:
  "throws_SYNTAX (addIndex b name columns opt_order opt_unique)
     \<longleftrightarrow> \<not> naming_rule name \<or> already_defined b name
         \<or> list_ex (rejected_column b True) (column_names columns)"
  using checkName_throws[of b name] normalizeColumns_throws[of b columns True opt_order None]
  by (auto simp: addIndex_def throws_SYNTAX_iff split: sum.splits)

lemma addPrimaryKey_throws:
  "throws_SYNTAX (addPrimaryKey b columns opt_autoInc)
     \<longleftrightarrow> \<not> naming_rule (tb_pkName b) \<or> already_defined b (tb_pkName b)
         \<or> list_ex (rejected_column b True) (column_names columns)"
  using checkName_throws[of b "tb_pkName b"]
    normalizeColumns_throws[of b columns True None opt_autoInc]
  by (auto simp: addPrimaryKey_def throws_SYNTAX_iff split: sum.splits)

lemma addNullable_throws:
  "throws_SYNTAX (addNullable b columns) \<longleftrightarrow> list_ex (not_defined_column b) columns"
  "isl (addNullable b columns) \<longleftrightarrow> list_ex (not_defined_column b) columns"
proof -
  have "rejected_column b False = not_defined_column b"
    by (simp add: rejected_column_def fun_eq_iff)
  then show "throws_SYNTAX (addNullable b columns) \<longleftrightarrow> list_ex (not_defined_column b) columns"
    and "isl (addNullable b columns) \<longleftrightarrow> list_ex (not_defined_column b) columns"
    using normalizeColumns_throws[of b "Names columns" False None None]
    by (auto simp: addNullable_def throws_SYNTAX_iff column_names_def split: sum.splits)
qed

lemma TableBuilder_throws:
  "tableName \<noteq> [] \<Longrightarrow> throws_SYNTAX (TableBuilder tableName) \<longleftrightarrow> \<not> naming_rule tableName"
  by (auto simp: TableBuilder_def toPascal_def checkName_def Let_def throws_SYNTAX_def
      Map_containsKey_def Set_contains_def split: list.splits)

text \<open>
  C8 says that an operation that introduces a name throws an \<open>lf.Exception\<close> of type
  \<open>SYNTAX\<close> if and only if the name fails the naming rule or is already present. On the
  builder of the example, \<open>addIndex\<close> throws one for a name that follows the rule and is
  not present: the column it refers to is not defined.
\<close>

theorem name_validation_counterexample:
  "build ''job'' example_ops = Inr example_builder
   \<and> throws_SYNTAX (addIndex example_builder ''idx_title'' (Names [''nope'']) None None)
   \<and> naming_rule ''idx_title''
   \<and> \<not> already_defined example_builder ''idx_title''"
  by (simp add: example_build)
     (simp add: example_builder_def addIndex_def checkName_def normalizeColumns_def
        naming_rule_def is_letter_def is_word_char_def already_defined_def
        Map_containsKey_def Set_contains_def throws_SYNTAX_def)

text \<open>
  C8, as the code has it. The constructor, given a table name that is not empty, throws an
  \<open>lf.Exception\<close> of type \<open>SYNTAX\<close> if and only if the name fails the pattern
  \<open>^[A-Za-z_][A-Za-z0-9_]*$\<close>; \<open>addColumn\<close> throws one if and only if the name fails the
  pattern or is already present among the builder's columns, indices or unique indices;
  \<open>addUnique\<close> and \<open>addIndex\<close>, for the name supplied, and \<open>addPrimaryKey\<close>, for the
  primary key's name, throw one if and only if that name fails the pattern or is already
  present, or a column referred to is not defined or not indexable.
\<close>

theorem name_validation:
  "(tableName \<noteq> [] \<longrightarrow> (throws_SYNTAX (TableBuilder tableName) \<longleftrightarrow> \<not> naming_rule tableName))
   \<and> (throws_SYNTAX (addColumn b name type) \<longleftrightarrow> \<not> naming_rule name \<or> already_defined b name)
   \<and> (throws_SYNTAX (addUnique b name names)
        \<longleftrightarrow> \<not> naming_rule name \<or> already_defined b name
            \<or> list_ex (rejected_column b True) names)
   \<and> (throws_SYNTAX (addIndex b name columns opt_order opt_unique)
        \<longleftrightarrow> \<not> naming_rule name \<or> already_defined b name
            \<or> list_ex (rejected_column b True) (column_names columns))
   \<and> (throws_SYNTAX (addPrimaryKey b columns opt_autoInc)
        \<longleftrightarrow> \<not> naming_rule (tb_pkName b) \<or> already_defined b (tb_pkName b)
            \<or> list_ex (rejected_column b True) (column_names columns))"
  using TableBuilder_throws[of tableName] addColumn_throws[of b name type]
    addUnique_throws[of b name names] addIndex_throws[of b name columns opt_order opt_unique]
    addPrimaryKey_throws[of b columns opt_autoInc]
  by blast

theorem name_validation_witness:
  "throws_SYNTAX (TableBuilder ''9lives'') \<and> \<not> naming_rule ''9lives''
   \<and> throws_SYNTAX (addColumn example_builder ''uq_title'' STRING)
   \<and> already_defined example_builder ''uq_title''
   \<and> throws_SYNTAX (addUnique example_builder ''uq_photo'' [''photo''])
   \<and> throws_SYNTAX (addIndex example_builder ''idx_photo'' (Names [''photo'']) None None)
   \<and> list_ex (rejected_column example_builder True) [''photo'']
   \<and> throws_SYNTAX (addPrimaryKey example_builder (Names [''id'']) None)
   \<and> already_defined example_builder (tb_pkName example_builder)"
proof -
  have n: "''9lives'' \<noteq> []" "\<not> naming_rule ''9lives''"
    by (simp_all add: naming_rule_def is_letter_def)
  have d: "already_defined example_builder ''uq_title''"
      "already_defined example_builder (tb_pkName example_builder)"
    by (simp_all add: already_defined_def example_builder_def Map_containsKey_def
        Set_contains_def)
  have r: "list_ex (rejected_column example_builder True) [''photo'']"
      "list_ex (rejected_column example_builder True) (column_names (Names [''photo'']))"
    by (simp_all add: rejected_column_def not_defined_column_def non_indexable_column_def
        column_names_def example_builder_def Map_containsKey_def Map_get_def)
  have "throws_SYNTAX (TableBuilder ''9lives'')"
    using name_validation[of "''9lives''"] n by blast
  moreover have "throws_SYNTAX (addColumn example_builder ''uq_title'' STRING)"
    using name_validation[of _ example_builder "''uq_title''" STRING] d(1) by blast
  moreover have "throws_SYNTAX (addUnique example_builder ''uq_photo'' [''photo''])"
    using name_validation[of _ example_builder "''uq_photo''" _ "[''photo'']"] r(1) by blast
  moreover have
    "throws_SYNTAX (addIndex example_builder ''idx_photo'' (Names [''photo'']) None None)"
    using name_validation[of _ example_builder "''idx_photo''" _ _ "Names [''photo'']" None None]
      r(2) by blast
  moreover have "throws_SYNTAX (addPrimaryKey example_builder (Names [''id'']) None)"
    using name_validation[of _ example_builder _ _ _ "Names [''id'']" _ _ None] d(2) by blast
  ultimately show ?thesis
    using n(2) d r(1) by simp
qed

text \<open>
  C9. \<open>addPrimaryKey\<close>, \<open>addUnique\<close> and \<open>addIndex\<close> throw an \<open>lf.Exception\<close> of type
  \<open>SYNTAX\<close> whenever a column referred to is not defined on the builder or has type
  \<open>ARRAY_BUFFER\<close> or \<open>OBJECT\<close>; \<open>addNullable\<close> throws exactly when a column referred to
  is not defined, whatever the types of the columns are, and what it throws is an
  \<open>lf.Exception\<close> of type \<open>SYNTAX\<close>.
\<close>

theorem column_validation:
  "(list_ex (\<lambda>c. not_defined_column b c \<or> non_indexable_column b c) (column_names columns)
      \<longrightarrow> throws_SYNTAX (addPrimaryKey b columns opt_autoInc)
          \<and> throws_SYNTAX (addIndex b name columns opt_order opt_unique))
   \<and> (list_ex (\<lambda>c. not_defined_column b c \<or> non_indexable_column b c) names
      \<longrightarrow> throws_SYNTAX (addUnique b name names))
   \<and> (isl (addNullable b names) \<longleftrightarrow> list_ex (not_defined_column b) names)
   \<and> (isl (addNullable b names) \<longleftrightarrow> throws_SYNTAX (addNullable b names))"
proof -
  have "rejected_column b True = (\<lambda>c. not_defined_column b c \<or> non_indexable_column b c)"
    by (simp add: rejected_column_def fun_eq_iff)
  then show ?thesis
    using addUnique_throws[of b name names] addIndex_throws[of b name columns opt_order opt_unique]
      addPrimaryKey_throws[of b columns opt_autoInc] addNullable_throws[of b names]
    by simp
qed

theorem column_validation_witness:
  "list_ex (\<lambda>c. not_defined_column example_builder c \<or> non_indexable_column example_builder c)
     (column_names (Names [''photo'']))
   \<and> throws_SYNTAX (addPrimaryKey example_builder (Names [''photo'']) None)
   \<and> throws_SYNTAX (addIndex example_builder ''idx_photo'' (Names [''photo'']) None None)
   \<and> list_ex (\<lambda>c. not_defined_column example_builder c \<or> non_indexable_column example_builder c)
       [''salary'']
   \<and> throws_SYNTAX (addUnique example_builder ''uq_salary'' [''salary''])
   \<and> list_ex (not_defined_column example_builder) [''salary'']
   \<and> throws_SYNTAX (addNullable example_builder [''salary''])
   \<and> \<not> list_ex (not_defined_column example_builder) [''photo'']
   \<and> \<not> isl (addNullable example_builder [''photo''])"
proof -
  have h: "list_ex (\<lambda>c. not_defined_column example_builder c
                          \<or> non_indexable_column example_builder c)
             (column_names (Names [''photo'']))"
      "list_ex (\<lambda>c. not_defined_column example_builder c \<or> non_indexable_column example_builder c)
         [''salary'']"
      "list_ex (not_defined_column example_builder) [''salary'']"
      "\<not> list_ex (not_defined_column example_builder) [''photo'']"
    by (simp_all add: not_defined_column_def non_indexable_column_def column_names_def
        example_builder_def Map_containsKey_def Map_get_def)
  have "throws_SYNTAX (addPrimaryKey example_builder (Names [''photo'']) None)
        \<and> throws_SYNTAX (addIndex example_builder ''idx_photo'' (Names [''photo'']) None None)"
    using column_validation[of example_builder "Names [''photo'']" None "''idx_photo''" None None]
      h(1) by blast
  moreover have "throws_SYNTAX (addUnique example_builder ''uq_salary'' [''salary''])"
    using column_validation[of example_builder _ _ "''uq_salary''" _ _ "[''salary'']"] h(2)
    by blast
  moreover have "throws_SYNTAX (addNullable example_builder [''salary''])"
    using column_validation[of example_builder _ _ _ _ _ "[''salary'']"] h(3) by blast
  moreover have "\<not> isl (addNullable example_builder [''photo''])"
    using column_validation[of example_builder _ _ _ _ _ "[''photo'']"] h(4) by blast
  ultimately show ?thesis
    using h by simp
qed

end
